theory Spec2Isabelle
  imports Main
begin

section \<open>JavaScript values and entity records\<close>

text \<open>
  The mock requests of \<^verbatim>\<open>nw.epm.refapps.ext.prod.manage.localService.MockRequests\<close> work on
  untyped JavaScript objects held in the entity sets of the UI5 mock server. A field value is
  a JavaScript value; an entity is an object, a finite map from property names to values. A
  property that is absent and a property that holds \<^verbatim>\<open>undefined\<close> read the same
  (\<open>fld\<close>), but only the second is an own property, so the map keeps them apart.

  Numbers are the integers of the data (counts, the id counter); the code copies them or
  overwrites them with \<open>0\<close> and never computes with them.
\<close>

datatype jsval =
    JUndefined
  | JNull
  | JBool bool
  | JNum int
  | JStr string
  | JObj "string \<Rightarrow> jsval option"

type_synonym entity = "string \<Rightarrow> jsval option"

datatype js_error = TypeError

text \<open>Reading \<^verbatim>\<open>oEntity[sName]\<close> on an object: \<^verbatim>\<open>undefined\<close> when the property is absent.\<close>

definition fld :: "entity \<Rightarrow> string \<Rightarrow> jsval" where
  "fld e k = (case e k of None \<Rightarrow> JUndefined | Some v \<Rightarrow> v)"

text \<open>
  Reading \<^verbatim>\<open>v.name\<close> on a value that is neither \<^verbatim>\<open>undefined\<close> nor \<^verbatim>\<open>null\<close>. The code
  reads properties of rows and of lookup results only; a lookup result is a row or the
  boolean \<^verbatim>\<open>false\<close>, and a property of \<^verbatim>\<open>false\<close> reads as \<^verbatim>\<open>undefined\<close>.
\<close>

fun jsprop :: "jsval \<Rightarrow> string \<Rightarrow> jsval" where
  "jsprop (JObj e) k = fld e k"
| "jsprop v k = JUndefined"

text \<open>JavaScript truthiness, as \<^verbatim>\<open>!x\<close> and \<^verbatim>\<open>if (x)\<close> see it.\<close>

fun truthy :: "jsval \<Rightarrow> bool" where
  "truthy JUndefined = False"
| "truthy JNull = False"
| "truthy (JBool b) = b"
| "truthy (JNum n) = (n \<noteq> 0)"
| "truthy (JStr s) = (s \<noteq> [])"
| "truthy (JObj e) = True"

text \<open>
  \<^verbatim>\<open>a === b\<close>: no conversion. Primitives are identical when they are the same value. Objects
  are identical by reference only, and the model has no addresses: it answers \<open>False\<close> for an
  object. The keys the code compares are the ids, unit codes and unit texts of the service,
  which are strings; a statement below that needs a key to be identical to itself says that
  the key is primitive (\<open>is_prim\<close>).
\<close>

definition strict_eq :: "jsval \<Rightarrow> jsval \<Rightarrow> bool" where
  "strict_eq a b = (case a of JObj e \<Rightarrow> False | _ \<Rightarrow> a = b)"

fun is_prim :: "jsval \<Rightarrow> bool" where
  "is_prim (JObj e) = False"
| "is_prim v = True"

text \<open>
  \<^verbatim>\<open>jQuery.extend(target, options)\<close>, the shallow merge: every property of \<open>options\<close> whose
  value is not \<^verbatim>\<open>undefined\<close> is written to the target; a primitive \<open>options\<close> (the
  \<^verbatim>\<open>false\<close> of a failed lookup) has no property to enumerate.
\<close>

definition jQuery_extend :: "entity \<Rightarrow> jsval \<Rightarrow> entity" where
  "jQuery_extend target options =
     (case options of
        JObj src \<Rightarrow>
          (\<lambda>k. case src k of
                 None \<Rightarrow> target k
               | Some JUndefined \<Rightarrow> target k
               | Some v \<Rightarrow> Some v)
      | _ \<Rightarrow> target)"

subsection \<open>Numbers and values as strings\<close>

definition digit_char :: "nat \<Rightarrow> char" where
  "digit_char d = char_of (48 + d)"

fun string_of_nat :: "nat \<Rightarrow> string" where
  "string_of_nat n =
     (if n < 10 then [digit_char n]
      else string_of_nat (n div 10) @ [digit_char (n mod 10)])"

declare string_of_nat.simps [simp del]

text \<open>The string that \<^verbatim>\<open>"..." + v\<close> appends for a value \<open>v\<close>.\<close>

fun js_to_string :: "jsval \<Rightarrow> string" where
  "js_to_string JUndefined = ''undefined''"
| "js_to_string JNull = ''null''"
| "js_to_string (JBool b) = (if b then ''true'' else ''false'')"
| "js_to_string (JNum n) =
     (if n < 0 then ''-'' @ string_of_nat (nat (- n)) else string_of_nat (nat n))"
| "js_to_string (JStr s) = s"
| "js_to_string (JObj e) = ''[object Object]''"

section \<open>The mock server's store and the state of the mock requests\<close>

text \<open>
  The host's contract: \<^verbatim>\<open>getEntitySetData(name)\<close> gives the rows of a named entity set,
  \<^verbatim>\<open>setEntitySetData(name, rows)\<close> replaces them, \<^verbatim>\<open>getRootUri()\<close> gives the service root.
  \<open>iLastId\<close> is the counter \<^verbatim>\<open>this._iLastId\<close> of the mock requests object, \<open>0\<close> after
  construction; it only counts up by one, and a natural number stands for it.
\<close>

record mock_state =
  iLastId :: nat
  entitySetData :: "string \<Rightarrow> entity list"
  rootUri :: string

definition getEntitySetData :: "mock_state \<Rightarrow> string \<Rightarrow> entity list" where
  "getEntitySetData st sEntitySetName = entitySetData st sEntitySetName"

definition setEntitySetData :: "mock_state \<Rightarrow> string \<Rightarrow> entity list \<Rightarrow> mock_state" where
  "setEntitySetData st sEntitySetName aData =
     st\<lparr>entitySetData := (entitySetData st)(sEntitySetName := aData)\<rparr>"

definition getRootUri :: "mock_state \<Rightarrow> string" where
  "getRootUri st = rootUri st"

definition oNewDraftDefaultValues :: entity where
  "oNewDraftDefaultValues =
     map_of
       [(''CurrencyCode'', JStr ''EUR''),
        (''DimensionUnit'', JStr ''MTR''),
        (''IsDirty'', JBool False),
        (''IsNewProduct'', JBool True),
        (''QuantityUnit'', JStr ''EA''),
        (''MeasureUnit'', JStr ''each''),
        (''WeightUnit'', JStr ''KGM'')]"

section \<open>The entity store adapter\<close>

text \<open>
  \<^verbatim>\<open>_getFirstFoundEntity\<close>: the rows whose key property is identical to \<open>sId\<close>, the first of
  them, or \<^verbatim>\<open>false\<close> (the value of \<^verbatim>\<open>aFound.length > 0 && aFound[0]\<close>) when there is none.
  An omitted or empty key name means \<^verbatim>\<open>"Id"\<close>.
\<close>

definition key_name :: "string option \<Rightarrow> string" where
  "key_name sKeyName = (case sKeyName of None \<Rightarrow> ''Id'' | Some k \<Rightarrow> if k = [] then ''Id'' else k)"

definition getFirstFoundEntity :: "mock_state \<Rightarrow> string \<Rightarrow> jsval \<Rightarrow> string option \<Rightarrow> jsval" where
  "getFirstFoundEntity st sEntitySetName sId sKeyName =
     (let aEntities = getEntitySetData st sEntitySetName;
          aFound = filter (\<lambda>oFound. strict_eq (fld oFound (key_name sKeyName)) sId) aEntities
      in case aFound of [] \<Rightarrow> JBool False | oFirst # _ \<Rightarrow> JObj oFirst)"

definition getProduct :: "mock_state \<Rightarrow> jsval \<Rightarrow> jsval" where
  "getProduct st sProductId = getFirstFoundEntity st ''Products'' sProductId None"

definition getProductDraft :: "mock_state \<Rightarrow> jsval \<Rightarrow> jsval" where
  "getProductDraft st sDraftId = getFirstFoundEntity st ''ProductDrafts'' sDraftId None"

definition getMainCategory :: "mock_state \<Rightarrow> jsval \<Rightarrow> jsval" where
  "getMainCategory st sMainCategoryId = getFirstFoundEntity st ''MainCategories'' sMainCategoryId None"

definition getSubCategory :: "mock_state \<Rightarrow> jsval \<Rightarrow> jsval" where
  "getSubCategory st sSubCategoryId = getFirstFoundEntity st ''SubCategories'' sSubCategoryId None"

definition getDimensionText :: "mock_state \<Rightarrow> jsval \<Rightarrow> jsval" where
  "getDimensionText st sDimensionUnit =
     jsprop (getFirstFoundEntity st ''DimensionUnits'' sDimensionUnit (Some ''Unit'')) ''Shorttext''"

definition getDimensionUnit :: "mock_state \<Rightarrow> jsval \<Rightarrow> jsval" where
  "getDimensionUnit st sDimensionText =
     jsprop (getFirstFoundEntity st ''DimensionUnits'' sDimensionText (Some ''Shorttext'')) ''Unit''"

definition getWeightText :: "mock_state \<Rightarrow> jsval \<Rightarrow> jsval" where
  "getWeightText st sWeightUnit =
     jsprop (getFirstFoundEntity st ''WeightUnits'' sWeightUnit (Some ''Unit'')) ''Shorttext''"

definition getWeightUnit :: "mock_state \<Rightarrow> jsval \<Rightarrow> jsval" where
  "getWeightUnit st sWeightText =
     jsprop (getFirstFoundEntity st ''WeightUnits'' sWeightText (Some ''Shorttext'')) ''Unit''"

text \<open>\<^verbatim>\<open>_extendMetadata\<close>: the addressing metadata of a row of an entity set.\<close>

definition extendMetadata :: "mock_state \<Rightarrow> entity \<Rightarrow> string \<Rightarrow> string \<Rightarrow> entity" where
  "extendMetadata st oEntity sEntityTypeName sEntitySetName =
     oEntity(''__metadata'' \<mapsto> JObj (map_of
       [(''id'', JStr (getRootUri st @ sEntitySetName @ ''('' @ [CHR 0x27]
                        @ js_to_string (fld oEntity ''Id'') @ [CHR 0x27] @ '')'')),
        (''type'', JStr (''EPM_REF_APPS_PROD_MAN_SRV.'' @ sEntityTypeName)),
        (''uri'', JStr (getRootUri st @ sEntitySetName @ ''('' @ [CHR 0x27]
                        @ js_to_string (fld oEntity ''Id'') @ [CHR 0x27] @ '')''))]))"

definition createProduct :: "mock_state \<Rightarrow> entity \<Rightarrow> mock_state" where
  "createProduct st oProduct =
     (let aProducts = getEntitySetData st ''Products'';
          oProduct' = extendMetadata st oProduct ''Product'' ''Products''
      in setEntitySetData st ''Products'' (aProducts @ [oProduct']))"

definition createProductDraft :: "mock_state \<Rightarrow> entity \<Rightarrow> mock_state" where
  "createProductDraft st oDraft =
     (let aProductDrafts = getEntitySetData st ''ProductDrafts'';
          oDraft1 = oDraft(''Images'' \<mapsto> JObj (map_of
            [(''__deferred'', JObj (map_of
               [(''uri'', JStr (getRootUri st @ ''ProductDrafts('' @ [CHR 0x27]
                                @ js_to_string (fld oDraft ''Id'') @ [CHR 0x27] @ '')/Images''))]))]));
          oDraft2 = extendMetadata st oDraft1 ''ProductDraft'' ''ProductDrafts''
      in setEntitySetData st ''ProductDrafts'' (aProductDrafts @ [oDraft2]))"

text \<open>\<^verbatim>\<open>_updateEntity\<close>: every row whose \<^verbatim>\<open>Id\<close> is identical to \<open>sId\<close> is merged with the update.\<close>

definition updateEntity :: "mock_state \<Rightarrow> string \<Rightarrow> jsval \<Rightarrow> jsval \<Rightarrow> mock_state" where
  "updateEntity st sEntitySetName sId oUpdatedProperties =
     (let aEntities = getEntitySetData st sEntitySetName;
          aUpdatedEntities =
            map (\<lambda>oEntity. if strict_eq (fld oEntity ''Id'') sId
                            then jQuery_extend oEntity oUpdatedProperties else oEntity) aEntities
      in setEntitySetData st sEntitySetName aUpdatedEntities)"

definition updateProduct :: "mock_state \<Rightarrow> jsval \<Rightarrow> jsval \<Rightarrow> mock_state" where
  "updateProduct st sId oUpdatedProperties = updateEntity st ''Products'' sId oUpdatedProperties"

definition updateProductDraft :: "mock_state \<Rightarrow> jsval \<Rightarrow> jsval \<Rightarrow> mock_state" where
  "updateProductDraft st sDraftId oUpdatedProperties =
     updateEntity st ''ProductDrafts'' sDraftId oUpdatedProperties"

text \<open>\<^verbatim>\<open>_deleteProductDraft\<close>: keeps the drafts whose \<^verbatim>\<open>Id\<close> is not identical to \<open>sDraftId\<close>.\<close>

definition deleteProductDraft :: "mock_state \<Rightarrow> jsval \<Rightarrow> mock_state" where
  "deleteProductDraft st sDraftId =
     (let aProductDrafts = getEntitySetData st ''ProductDrafts''
      in setEntitySetData st ''ProductDrafts''
           (filter (\<lambda>oDraft. \<not> strict_eq (fld oDraft ''Id'') sDraftId) aProductDrafts))"

definition getNewId :: "mock_state \<Rightarrow> nat \<times> mock_state" where
  "getNewId st = (iLastId st + 1, st\<lparr>iLastId := iLastId st + 1\<rparr>)"

section \<open>Draft to product, product to draft\<close>

text \<open>
  \<^verbatim>\<open>_buildProductFromDraft\<close>. The product is the draft object itself, so the draft-only
  properties are deleted from it, the draft's row leaves \<^verbatim>\<open>ProductDrafts\<close>, and the
  category names and unit texts are written to it. The function returns the product and the
  store after the deletion; the draft's row, which is the object being rewritten, has left
  the store by then (its \<^verbatim>\<open>Id\<close>, a primitive, is identical to itself), so the store never
  holds a row that is half draft and half product.
  The file is in strict mode: when the argument is the \<^verbatim>\<open>false\<close>
  of a failed lookup, the reads and the \<^verbatim>\<open>delete\<close>s pass (every property of \<^verbatim>\<open>false\<close> reads
  as \<^verbatim>\<open>undefined\<close>), the drafts whose \<^verbatim>\<open>Id\<close> is \<^verbatim>\<open>undefined\<close> are deleted, and the first
  assignment, \<^verbatim>\<open>oProduct.SubCategoryName = ...\<close>, raises a \<^verbatim>\<open>TypeError\<close>. On \<^verbatim>\<open>undefined\<close>
  and \<^verbatim>\<open>null\<close> the first read raises it.
\<close>

definition buildProductFromDraft :: "mock_state \<Rightarrow> jsval \<Rightarrow> (js_error + entity) \<times> mock_state" where
  "buildProductFromDraft st oDraft =
     (case oDraft of
        JObj d \<Rightarrow>
          (let bIsNewProduct =
                 (case fld d ''IsNewProduct'' of JUndefined \<Rightarrow> JBool True | b \<Rightarrow> b);
               p1 = d(''__metadata'' := None, ''SubCategoryName'' := None,
                      ''MainCategoryName'' := None, ''Images'' := None,
                      ''IsNewProduct'' := None, ''ExpiresAt'' := None,
                      ''ProductId'' := None, ''IsDirty'' := None);
               st1 = deleteProductDraft st (fld p1 ''Id'');
               p2 = (if \<not> truthy (fld p1 ''SubCategoryName'')
                     then p1(''SubCategoryName'' \<mapsto>
                            jsprop (getSubCategory st1 (fld p1 ''SubCategoryId'')) ''Name'')
                     else p1);
               p3 = (if \<not> truthy (fld p2 ''MainCategoryName'')
                     then p2(''MainCategoryName'' \<mapsto>
                            jsprop (getMainCategory st1 (fld p2 ''MainCategoryId'')) ''Name'')
                     else p2);
               p4 = p3(''WeightUnit'' \<mapsto> getWeightText st1 (fld p3 ''WeightUnit''));
               p5 = p4(''DimensionUnit'' \<mapsto> getDimensionText st1 (fld p4 ''DimensionUnit''));
               p6 = (if truthy bIsNewProduct
                     then (let q = p5(''RatingCount'' \<mapsto> JNum 0, ''AverageRating'' \<mapsto> JNum 0,
                                      ''StockQuantity'' \<mapsto> JNum 0)
                           in if \<not> truthy (fld q ''ImageUrl'')
                              then q(''ImageUrl'' \<mapsto> JStr []) else q)
                     else p5)
           in (Inr p6, st1))
      | JUndefined \<Rightarrow> (Inl TypeError, st)
      | JNull \<Rightarrow> (Inl TypeError, st)
      | _ \<Rightarrow> (Inl TypeError, deleteProductDraft st (jsprop oDraft ''Id'')))"

text \<open>
  \<^verbatim>\<open>_createDraft\<close>, called with the product id of the URL after \<^verbatim>\<open>decodeURIComponent\<close>. It
  returns the entity of the response (\<^verbatim>\<open>d\<close> of the JSON envelope, status 200) and the
  store with the new draft.
\<close>

definition createDraft :: "mock_state \<Rightarrow> string \<Rightarrow> bool \<Rightarrow> jsval \<times> mock_state" where
  "createDraft st sProductId bNewProduct =
     (let oProduct = getProduct st (JStr sProductId);
          d0 = jQuery_extend Map.empty oProduct;
          d1 = d0(''HasReviewOfCurrentUser'' := None, ''RatingCount'' := None,
                  ''IsFavoriteOfCurrentUser'' := None, ''StockQuantity'' := None,
                  ''AverageRating'' := None, ''__metadata'' := None);
          d2 = d1(''CreatedBy'' \<mapsto> JStr ''Test User'', ''IsNewProduct'' \<mapsto> JBool bNewProduct,
                  ''IsDirty'' \<mapsto> JBool False);
          (d3, st1) =
            (if bNewProduct
             then (let (iNew, st') = getNewId st;
                       sNew = JStr (''EPM-'' @ string_of_nat iNew)
                   in (d2(''Id'' \<mapsto> sNew, ''ProductId'' \<mapsto> sNew), st'))
             else (d2(''Id'' \<mapsto> JStr sProductId, ''ProductId'' \<mapsto> JStr sProductId), st));
          d4 = d3(''WeightUnit'' \<mapsto> getWeightUnit st1 (jsprop oProduct ''WeightUnit''));
          d5 = d4(''DimensionUnit'' \<mapsto> getDimensionUnit st1 (jsprop oProduct ''DimensionUnit''));
          st2 = createProductDraft st1 d5
      in (getProductDraft st2 (fld d5 ''Id''), st2))"

section \<open>The mock requests\<close>

text \<open>
  Each handler is the \<^verbatim>\<open>response\<close> function of its mock request, as a function of the store
  and of the id in the URL (after \<^verbatim>\<open>decodeURIComponent\<close>). The \<^verbatim>\<open>alert\<close> of the edit and
  copy requests does not touch the store.
\<close>

definition mockEditProduct :: "mock_state \<Rightarrow> string \<Rightarrow> jsval \<times> mock_state" where
  "mockEditProduct st sProductId = createDraft st sProductId False"

definition mockCopyProduct :: "mock_state \<Rightarrow> string \<Rightarrow> jsval \<times> mock_state" where
  "mockCopyProduct st sProductId = createDraft st sProductId True"

definition mockActivateProduct :: "mock_state \<Rightarrow> string \<Rightarrow> (js_error + jsval) \<times> mock_state" where
  "mockActivateProduct st sDraftId =
     (let oProdDraft = getProductDraft st (JStr sDraftId);
          bIsNewProduct = jsprop oProdDraft ''IsNewProduct''
      in case buildProductFromDraft st oProdDraft of
           (Inl err, st1) \<Rightarrow> (Inl err, st1)
         | (Inr oProduct, st1) \<Rightarrow>
             (let st2 = (if truthy bIsNewProduct \<or> bIsNewProduct = JUndefined
                         then createProduct st1 oProduct
                         else updateProduct st1 (fld oProduct ''Id'') (JObj oProduct))
              in (Inr (getProduct st2 (fld oProduct ''Id'')), st2)))"

text \<open>
  The add request of the older mock server: \<open>oDraft\<close> is \<^verbatim>\<open>d\<close> of the response just written
  for the creation of a draft. Reading \<^verbatim>\<open>oDraft.ProductId\<close> raises when there is no \<^verbatim>\<open>d\<close>.
\<close>

definition mockAddProduct :: "mock_state \<Rightarrow> jsval \<Rightarrow> (js_error + unit) \<times> mock_state" where
  "mockAddProduct st oDraft =
     (case oDraft of
        JUndefined \<Rightarrow> (Inl TypeError, st)
      | JNull \<Rightarrow> (Inl TypeError, st)
      | _ \<Rightarrow>
          (if \<not> truthy (jsprop oDraft ''ProductId'')
           then (Inr (), updateProductDraft st (jsprop oDraft ''Id'') (JObj oNewDraftDefaultValues))
           else (Inr (), st)))"

text \<open>
  The hook of the newer mock server, on the entity just created (\<^verbatim>\<open>oEvt.getParameters().oEntity\<close>);
  it changes that object in place, and the result is the object afterwards.
\<close>

definition onAfterDraftCreated :: "entity \<Rightarrow> entity" where
  "onAfterDraftCreated oEntity =
     (if \<not> truthy (fld oEntity ''ProductId'')
      then jQuery_extend oEntity (JObj oNewDraftDefaultValues)
      else oEntity)"

text \<open>
  Two names for the statements below: the draft row that \<^verbatim>\<open>_createDraft\<close> has appended to
  \<^verbatim>\<open>ProductDrafts\<close>, and the id it gives that row.
\<close>

definition created_draft :: "mock_state \<Rightarrow> string \<Rightarrow> bool \<Rightarrow> entity" where
  "created_draft st s b = last (getEntitySetData (snd (createDraft st s b)) ''ProductDrafts'')"

abbreviation new_draft_id :: "mock_state \<Rightarrow> string \<Rightarrow> bool \<Rightarrow> jsval" where
  "new_draft_id st s b \<equiv>
     (if b then JStr (''EPM-'' @ string_of_nat (iLastId st + 1)) else JStr s)"

text \<open>The invariant of the drafts: no two rows of \<^verbatim>\<open>ProductDrafts\<close> have the same \<^verbatim>\<open>Id\<close>.\<close>

definition drafts_unique :: "mock_state \<Rightarrow> bool" where
  "drafts_unique st = distinct (map (\<lambda>d. fld d ''Id'') (getEntitySetData st ''ProductDrafts''))"

section \<open>Example stores\<close>

text \<open>
  The rows and stores of the scenarios: the categories \<^verbatim>\<open>S1\<close> (Snacks) and \<^verbatim>\<open>M1\<close> (Food) and the
  draft \<^verbatim>\<open>EPM-1\<close> of the activation scenario, a draft made by "Add", unit tables, a product
  \<^verbatim>\<open>P1\<close> with and without an edit draft, and variants of these.
\<close>

definition row_S1 :: entity where
  "row_S1 = map_of [(''Id'', JStr ''S1''), (''Name'', JStr ''Snacks'')]"

definition row_M1 :: entity where
  "row_M1 = map_of [(''Id'', JStr ''M1''), (''Name'', JStr ''Food'')]"

definition draft_EPM1 :: entity where
  "draft_EPM1 =
     map_of [(''Id'', JStr ''EPM-1''), (''ProductId'', JStr ''EPM-1''),
             (''IsNewProduct'', JBool True), (''SubCategoryId'', JStr ''S1''),
             (''MainCategoryId'', JStr ''M1'')]"

definition store_scenario :: mock_state where
  "store_scenario =
     \<lparr>iLastId = 1,
      entitySetData = (\<lambda>n. [])(''ProductDrafts'' := [draft_EPM1], ''SubCategories'' := [row_S1],
                                ''MainCategories'' := [row_M1]),
      rootUri = ''/''\<rparr>"

definition draft_added :: entity where
  "draft_added = map_of [(''Id'', JStr ''D1''), (''Name'', JStr ''Crisps'')]"

definition store_added :: mock_state where
  "store_added =
     \<lparr>iLastId = 0, entitySetData = (\<lambda>n. [])(''ProductDrafts'' := [draft_added]), rootUri = ''/''\<rparr>"

definition unit_KG :: entity where
  "unit_KG = map_of [(''Unit'', JStr ''KG''), (''Shorttext'', JStr ''kg'')]"

definition unit_KGM :: entity where
  "unit_KGM = map_of [(''Unit'', JStr ''KGM''), (''Shorttext'', JStr ''kg'')]"

definition store_units :: mock_state where
  "store_units =
     \<lparr>iLastId = 0,
      entitySetData = (\<lambda>n. [])(''WeightUnits'' := [unit_KG], ''DimensionUnits'' := [unit_KG]),
      rootUri = ''/''\<rparr>"

definition store_units_shared_text :: mock_state where
  "store_units_shared_text =
     \<lparr>iLastId = 0,
      entitySetData = (\<lambda>n. [])(''WeightUnits'' := [unit_KGM, unit_KG]),
      rootUri = ''/''\<rparr>"

definition product_P1 :: entity where
  "product_P1 =
     map_of [(''Id'', JStr ''P1''), (''Name'', JStr ''Chips''),
             (''SubCategoryId'', JStr ''S1''), (''SubCategoryName'', JStr ''Old name''),
             (''MainCategoryId'', JStr ''M1''), (''MainCategoryName'', JStr ''Food''),
             (''RatingCount'', JNum 5), (''StockQuantity'', JNum 7)]"

definition draft_P1 :: entity where
  "draft_P1 =
     map_of [(''Id'', JStr ''P1''), (''ProductId'', JStr ''P1''), (''IsNewProduct'', JBool False),
             (''IsDirty'', JBool True), (''Name'', JStr ''Crisps''),
             (''SubCategoryId'', JStr ''S1''), (''MainCategoryId'', JStr ''M1'')]"

definition store_edit :: mock_state where
  "store_edit =
     \<lparr>iLastId = 0,
      entitySetData = (\<lambda>n. [])(''Products'' := [product_P1], ''ProductDrafts'' := [draft_P1],
                                ''SubCategories'' := [row_S1], ''MainCategories'' := [row_M1]),
      rootUri = ''/''\<rparr>"

definition store_product :: mock_state where
  "store_product =
     \<lparr>iLastId = 0,
      entitySetData = (\<lambda>n. [])(''Products'' := [product_P1],
                                ''SubCategories'' := [row_S1], ''MainCategories'' := [row_M1]),
      rootUri = ''/''\<rparr>"

definition draft_stale :: entity where
  "draft_stale =
     map_of [(''Id'', JStr ''EPM-1''), (''ProductId'', JStr ''EPM-1''),
             (''IsNewProduct'', JBool True), (''SubCategoryId'', JStr ''S1''),
             (''MainCategoryId'', JStr ''M1''), (''SubCategoryName'', JStr ''Stale name'')]"

definition store_stale :: mock_state where
  "store_stale =
     \<lparr>iLastId = 1,
      entitySetData = (\<lambda>n. [])(''ProductDrafts'' := [draft_stale], ''SubCategories'' := [row_S1],
                                ''MainCategories'' := [row_M1]),
      rootUri = ''/''\<rparr>"

definition product_EPM1 :: entity where
  "product_EPM1 = map_of [(''Id'', JStr ''EPM-1''), (''Name'', JStr ''Chips'')]"

definition store_counter_reset :: mock_state where
  "store_counter_reset =
     \<lparr>iLastId = 0, entitySetData = (\<lambda>n. [])(''Products'' := [product_EPM1]), rootUri = ''/''\<rparr>"

definition product_P2 :: entity where
  "product_P2 = product_P1(''Id'' \<mapsto> JStr ''P2'')"

definition store_product_renamed :: mock_state where
  "store_product_renamed =
     \<lparr>iLastId = 0,
      entitySetData = (\<lambda>n. [])(''Products'' := [product_P2],
                                ''SubCategories'' := [row_S1], ''MainCategories'' := [row_M1]),
      rootUri = ''/''\<rparr>"

definition draft_EPM1_edit :: entity where
  "draft_EPM1_edit =
     map_of [(''Id'', JStr ''EPM-1''), (''ProductId'', JStr ''EPM-1''),
             (''IsNewProduct'', JBool False), (''SubCategoryId'', JStr ''S1''),
             (''MainCategoryId'', JStr ''M1'')]"

definition store_two_drafts :: mock_state where
  "store_two_drafts =
     \<lparr>iLastId = 1,
      entitySetData = (\<lambda>n. [])(''Products'' := [product_EPM1],
                                ''ProductDrafts'' := [draft_EPM1, draft_EPM1_edit],
                                ''SubCategories'' := [row_S1], ''MainCategories'' := [row_M1]),
      rootUri = ''/''\<rparr>"

definition product_pictured :: entity where
  "product_pictured =
     map_of [(''Id'', JStr ''P1''), (''Name'', JStr ''Chips''),
             (''ImageUrl'', JStr ''/images/P1.jpg'')]"

definition store_pictured :: mock_state where
  "store_pictured =
     \<lparr>iLastId = 0, entitySetData = (\<lambda>n. [])(''Products'' := [product_pictured]), rootUri = ''/''\<rparr>"

section \<open>Facts about the model\<close>

subsection \<open>Objects, identity and the merge\<close>

text \<open>
  Objects are maps with many updates in a row. Two conditional rules of the library try to
  drop an update by looking through all the earlier ones, at every update; they are not
  needed here and are taken out of the simplifier.
\<close>

declare fun_upd_None_if_notin_dom [simp del] map_upd_triv [simp del]

lemma fld_upd:
  "fld (e(k := v)) k' = (if k' = k then (case v of None \<Rightarrow> JUndefined | Some x \<Rightarrow> x) else fld e k')"
  by (simp add: fld_def)

lemma fld_Some: "e k = Some v \<Longrightarrow> fld e k = v"
  by (simp add: fld_def)

lemma fld_None: "e k = None \<Longrightarrow> fld e k = JUndefined"
  by (simp add: fld_def)

lemma fld_cong: "e k = e' k \<Longrightarrow> fld e k = fld e' k"
  by (simp add: fld_def)

lemma fld_JStr_Some: "fld e k = JStr s \<Longrightarrow> e k = Some (JStr s)"
  by (auto simp: fld_def split: option.splits)

lemma strict_eq_JStr: "strict_eq v (JStr s) = (v = JStr s)"
  by (cases v) (auto simp: strict_eq_def)

lemma strict_eq_JUndefined: "strict_eq v JUndefined = (v = JUndefined)"
  by (cases v) (auto simp: strict_eq_def)

lemma strict_eq_refl: "is_prim v \<Longrightarrow> strict_eq v v"
  by (cases v) (auto simp: strict_eq_def)

lemma strict_eq_eq: "strict_eq a b \<Longrightarrow> a = b"
  by (cases a) (auto simp: strict_eq_def)

lemma jQuery_extend_keeps:
  assumes "p k = None \<or> p k = P k \<or> p k = jQuery_extend Map.empty (JObj P) k"
  shows "jQuery_extend P (JObj p) k = P k"
  using assms by (auto simp: jQuery_extend_def split: option.splits jsval.splits)

lemma extend_defaults_Some:
  "oNewDraftDefaultValues k = Some v \<Longrightarrow> jQuery_extend r (JObj oNewDraftDefaultValues) k = Some v"
  by (auto simp: jQuery_extend_def oNewDraftDefaultValues_def split: if_splits)

lemma extend_defaults_fld:
  "fld (jQuery_extend r (JObj oNewDraftDefaultValues)) ''CurrencyCode'' = JStr ''EUR''"
  "fld (jQuery_extend r (JObj oNewDraftDefaultValues)) ''DimensionUnit'' = JStr ''MTR''"
  "fld (jQuery_extend r (JObj oNewDraftDefaultValues)) ''IsDirty'' = JBool False"
  "fld (jQuery_extend r (JObj oNewDraftDefaultValues)) ''IsNewProduct'' = JBool True"
  "fld (jQuery_extend r (JObj oNewDraftDefaultValues)) ''QuantityUnit'' = JStr ''EA''"
  "fld (jQuery_extend r (JObj oNewDraftDefaultValues)) ''MeasureUnit'' = JStr ''each''"
  "fld (jQuery_extend r (JObj oNewDraftDefaultValues)) ''WeightUnit'' = JStr ''KGM''"
  by (simp_all add: fld_def jQuery_extend_def oNewDraftDefaultValues_def)

subsection \<open>Decimal digits\<close>

lemma digit_char_inj:
  assumes "a < 10" and "b < 10" and "digit_char a = digit_char b"
  shows "a = b"
proof -
  have "48 + a \<in> {0..<256}" "48 + b \<in> {0..<256}"
    using assms(1,2) by simp_all
  moreover have "char_of (48 + a) = (char_of (48 + b) :: char)"
    using assms(3) by (simp only: digit_char_def)
  ultimately have "48 + a = 48 + b"
    by (meson inj_on_char_of_nat inj_onD)
  then show ?thesis by simp
qed

lemma string_of_nat_not_Nil: "string_of_nat n \<noteq> []"
  by (subst string_of_nat.simps) simp

lemma string_of_nat_inj: "string_of_nat n = string_of_nat m \<Longrightarrow> n = m"
proof (induction n arbitrary: m rule: string_of_nat.induct)
  case (1 n)
  show ?case
  proof (cases "n < 10")
    case n: True
    show ?thesis
    proof (cases "m < 10")
      case True
      then show ?thesis
        using "1.prems" n digit_char_inj [of n m]
        by (simp add: string_of_nat.simps [of n] string_of_nat.simps [of m])
    next
      case False
      then show ?thesis
        using "1.prems" n string_of_nat_not_Nil [of "m div 10"]
        by (simp add: string_of_nat.simps [of n] string_of_nat.simps [of m])
    qed
  next
    case n: False
    show ?thesis
    proof (cases "m < 10")
      case True
      then show ?thesis
        using "1.prems" n string_of_nat_not_Nil [of "n div 10"]
        by (simp add: string_of_nat.simps [of n] string_of_nat.simps [of m])
    next
      case False
      then have eq: "string_of_nat (n div 10) = string_of_nat (m div 10)"
        and dg: "digit_char (n mod 10) = digit_char (m mod 10)"
        using "1.prems" n
        by (simp_all add: string_of_nat.simps [of n] string_of_nat.simps [of m])
      have "n div 10 = m div 10"
        using "1.IH" [OF n eq] .
      moreover have "n mod 10 = m mod 10"
        using digit_char_inj [OF _ _ dg] by simp
      ultimately show ?thesis
        by (metis div_mult_mod_eq)
    qed
  qed
qed

lemma string_of_nat_1: "string_of_nat 1 = ''1''" "string_of_nat (Suc 0) = ''1''"
  by code_simp+

subsection \<open>The store and the lookup\<close>

lemma getEntitySetData_set:
  "getEntitySetData (setEntitySetData st n rows) m = (if m = n then rows else getEntitySetData st m)"
  by (simp add: getEntitySetData_def setEntitySetData_def)

lemma getRootUri_set: "getRootUri (setEntitySetData st n rows) = getRootUri st"
  by (simp add: getRootUri_def setEntitySetData_def)

lemma iLastId_set: "iLastId (setEntitySetData st n rows) = iLastId st"
  by (simp add: setEntitySetData_def)

lemma getEntitySetData_iLastId:
  "getEntitySetData (st\<lparr>iLastId := x\<rparr>) n = getEntitySetData st n"
  by (simp add: getEntitySetData_def)

lemma getRootUri_iLastId: "getRootUri (st\<lparr>iLastId := x\<rparr>) = getRootUri st"
  by (simp add: getRootUri_def)

lemma filter_first:
  "(\<forall>x\<in>set pre. \<not> P x) \<Longrightarrow> P r \<Longrightarrow> filter P (pre @ r # post) = r # filter P post"
  by (induction pre) auto

lemma key_name_simps:
  "key_name None = ''Id''" "key_name (Some ''Unit'') = ''Unit''"
  "key_name (Some ''Shorttext'') = ''Shorttext''"
  by (simp_all add: key_name_def)

lemma getFirstFoundEntity_found:
  assumes "getEntitySetData st n = pre @ r # post"
    and "\<forall>x\<in>set pre. \<not> strict_eq (fld x (key_name k)) sId"
    and "strict_eq (fld r (key_name k)) sId"
  shows "getFirstFoundEntity st n sId k = JObj r"
  using assms by (simp add: getFirstFoundEntity_def filter_first)

lemma getFirstFoundEntity_none:
  assumes "\<forall>x\<in>set (getEntitySetData st n). \<not> strict_eq (fld x (key_name k)) sId"
  shows "getFirstFoundEntity st n sId k = JBool False"
proof -
  have "filter (\<lambda>x. strict_eq (fld x (key_name k)) sId) (getEntitySetData st n) = []"
    using assms by (simp add: filter_empty_conv)
  then show ?thesis by (simp add: getFirstFoundEntity_def)
qed

lemma getFirstFoundEntity_cases:
  "getFirstFoundEntity st n sId k = JBool False \<or>
   (\<exists>r. getFirstFoundEntity st n sId k = JObj r \<and> r \<in> set (getEntitySetData st n)
        \<and> strict_eq (fld r (key_name k)) sId)"
proof (cases "filter (\<lambda>x. strict_eq (fld x (key_name k)) sId) (getEntitySetData st n)")
  case Nil
  then show ?thesis by (simp add: getFirstFoundEntity_def)
next
  case (Cons r rs)
  then have "r \<in> set (filter (\<lambda>x. strict_eq (fld x (key_name k)) sId) (getEntitySetData st n))"
    by simp
  then have "r \<in> set (getEntitySetData st n) \<and> strict_eq (fld r (key_name k)) sId"
    by simp
  then show ?thesis using Cons by (simp add: getFirstFoundEntity_def)
qed

lemma getFirstFoundEntity_JObjD:
  assumes "getFirstFoundEntity st n sId k = JObj r"
  shows "r \<in> set (getEntitySetData st n) \<and> strict_eq (fld r (key_name k)) sId"
  using getFirstFoundEntity_cases [of st n sId k] assms by auto

lemma getFirstFoundEntity_hit:
  assumes "x \<in> set (getEntitySetData st n)" and "strict_eq (fld x (key_name k)) sId"
  shows "\<exists>r. getFirstFoundEntity st n sId k = JObj r \<and> r \<in> set (getEntitySetData st n)
             \<and> strict_eq (fld r (key_name k)) sId"
proof -
  have "x \<in> set (filter (\<lambda>y. strict_eq (fld y (key_name k)) sId) (getEntitySetData st n))"
    using assms by simp
  then have "filter (\<lambda>y. strict_eq (fld y (key_name k)) sId) (getEntitySetData st n) \<noteq> []"
    by (metis empty_iff list.set(1))
  then have "getFirstFoundEntity st n sId k \<noteq> JBool False"
    by (simp add: getFirstFoundEntity_def split: list.splits)
  then show ?thesis
    using getFirstFoundEntity_cases [of st n sId k] by blast
qed

lemma getFirstFoundEntity_same_rows:
  "getEntitySetData st' n = getEntitySetData st n \<Longrightarrow>
   getFirstFoundEntity st' n sId k = getFirstFoundEntity st n sId k"
  by (simp add: getFirstFoundEntity_def)

lemma getProductDraft_JObjD:
  assumes "getProductDraft st (JStr sId) = JObj d"
  shows "d \<in> set (getEntitySetData st ''ProductDrafts'')" and "fld d ''Id'' = JStr sId"
  using getFirstFoundEntity_JObjD [of st "''ProductDrafts''" "JStr sId" None d] assms
  by (simp_all add: getProductDraft_def key_name_simps strict_eq_JStr)

lemma getProduct_JObjD:
  assumes "getProduct st (JStr sId) = JObj P"
  shows "P \<in> set (getEntitySetData st ''Products'')" and "fld P ''Id'' = JStr sId"
  using getFirstFoundEntity_JObjD [of st "''Products''" "JStr sId" None P] assms
  by (simp_all add: getProduct_def key_name_simps strict_eq_JStr)

lemma getProductDraft_first:
  "getEntitySetData st ''ProductDrafts'' = d # ds \<Longrightarrow> fld d ''Id'' = JStr sId \<Longrightarrow>
   getProductDraft st (JStr sId) = JObj d"
  by (simp add: getProductDraft_def getFirstFoundEntity_def key_name_simps strict_eq_JStr)

lemma getProduct_first:
  "getEntitySetData st ''Products'' = P # Ps \<Longrightarrow> fld P ''Id'' = JStr sId \<Longrightarrow>
   getProduct st (JStr sId) = JObj P"
  by (simp add: getProduct_def getFirstFoundEntity_def key_name_simps strict_eq_JStr)

lemma getProductDraft_unique:
  assumes uniq: "drafts_unique st"
    and d: "d \<in> set (getEntitySetData st ''ProductDrafts'')"
    and id: "fld d ''Id'' = JStr sId"
  shows "getProductDraft st (JStr sId) = JObj d"
proof -
  have "strict_eq (fld d (key_name None)) (JStr sId)"
    using id by (simp add: key_name_simps strict_eq_JStr)
  from getFirstFoundEntity_hit [OF d this]
  obtain r where r: "getFirstFoundEntity st ''ProductDrafts'' (JStr sId) None = JObj r"
    and r_in: "r \<in> set (getEntitySetData st ''ProductDrafts'')"
    and r_id: "fld r ''Id'' = JStr sId"
    by (auto simp: key_name_simps strict_eq_JStr)
  have "inj_on (\<lambda>d. fld d ''Id'') (set (getEntitySetData st ''ProductDrafts''))"
    using uniq by (simp add: drafts_unique_def distinct_map)
  moreover have "fld r ''Id'' = fld d ''Id''"
    using r_id id by simp
  ultimately have "r = d"
    using r_in d by (simp add: inj_on_def)
  then show ?thesis
    using r by (simp add: getProductDraft_def)
qed

subsection \<open>The rows after each operation of the store adapter\<close>

lemma deleteProductDraft_rows:
  "getEntitySetData (deleteProductDraft st v) n =
     (if n = ''ProductDrafts''
      then filter (\<lambda>d. \<not> strict_eq (fld d ''Id'') v) (getEntitySetData st ''ProductDrafts'')
      else getEntitySetData st n)"
  by (simp add: deleteProductDraft_def Let_def getEntitySetData_set)

lemma createProductDraft_rows:
  "getEntitySetData (createProductDraft st d) n =
     (if n = ''ProductDrafts''
      then getEntitySetData st ''ProductDrafts'' @ [extendMetadata st (d(''Images'' \<mapsto> JObj (map_of
            [(''__deferred'', JObj (map_of
               [(''uri'', JStr (getRootUri st @ ''ProductDrafts('' @ [CHR 0x27]
                                @ js_to_string (fld d ''Id'') @ [CHR 0x27] @ '')/Images''))]))]))) ''ProductDraft'' ''ProductDrafts'']
      else getEntitySetData st n)"
  by (simp add: createProductDraft_def Let_def getEntitySetData_set)

lemma updateEntity_rows:
  "getEntitySetData (updateEntity st n sId upd) m =
     (if m = n
      then map (\<lambda>r. if strict_eq (fld r ''Id'') sId then jQuery_extend r upd else r)
             (getEntitySetData st n)
      else getEntitySetData st m)"
  by (simp add: updateEntity_def Let_def getEntitySetData_set)

lemma createProduct_rows:
  "getEntitySetData (createProduct st p) n =
     (if n = ''Products''
      then getEntitySetData st ''Products'' @ [extendMetadata st p ''Product'' ''Products'']
      else getEntitySetData st n)"
  by (simp add: createProduct_def Let_def getEntitySetData_set)

lemma updateProduct_rows:
  "getEntitySetData (updateProduct st sId upd) n =
     (if n = ''Products''
      then map (\<lambda>r. if strict_eq (fld r ''Id'') sId then jQuery_extend r upd else r)
             (getEntitySetData st ''Products'')
      else getEntitySetData st n)"
  by (simp add: updateProduct_def updateEntity_rows)

lemma lookup_after_deleteProductDraft:
  "n \<noteq> ''ProductDrafts'' \<Longrightarrow>
   getFirstFoundEntity (deleteProductDraft st v) n sId k = getFirstFoundEntity st n sId k"
  by (rule getFirstFoundEntity_same_rows) (simp add: deleteProductDraft_rows)

lemma lookups_after_deleteProductDraft:
  "getSubCategory (deleteProductDraft st v) x = getSubCategory st x"
  "getMainCategory (deleteProductDraft st v) x = getMainCategory st x"
  "getWeightText (deleteProductDraft st v) x = getWeightText st x"
  "getDimensionText (deleteProductDraft st v) x = getDimensionText st x"
  "getProduct (deleteProductDraft st v) x = getProduct st x"
  by (simp_all add: getSubCategory_def getMainCategory_def getWeightText_def
      getDimensionText_def getProduct_def lookup_after_deleteProductDraft)

lemma extendMetadata_after_deleteProductDraft:
  "extendMetadata (deleteProductDraft st v) e t n = extendMetadata st e t n"
  by (simp add: extendMetadata_def deleteProductDraft_def Let_def getRootUri_set)

lemma extendMetadata_other:
  "k \<noteq> ''__metadata'' \<Longrightarrow> extendMetadata st e t n k = e k"
  by (simp add: extendMetadata_def)

lemma fld_extendMetadata:
  "k \<noteq> ''__metadata'' \<Longrightarrow> fld (extendMetadata st e t n) k = fld e k"
  by (simp add: fld_def extendMetadata_other)

lemma lookups_iLastId:
  "getFirstFoundEntity (st\<lparr>iLastId := x\<rparr>) n sId k = getFirstFoundEntity st n sId k"
  "getWeightUnit (st\<lparr>iLastId := x\<rparr>) v = getWeightUnit st v"
  "getDimensionUnit (st\<lparr>iLastId := x\<rparr>) v = getDimensionUnit st v"
  by (simp_all add: getWeightUnit_def getDimensionUnit_def getFirstFoundEntity_def
      getEntitySetData_iLastId)

subsection \<open>The unit tables\<close>

lemma unit_roundtrip_table:
  assumes prim: "\<forall>a\<in>set (getEntitySetData st n).
                   is_prim (fld a ''Unit'') \<and> is_prim (fld a ''Shorttext'')"
    and inj: "\<forall>a\<in>set (getEntitySetData st n). \<forall>b\<in>set (getEntitySetData st n).
                fld a ''Shorttext'' = fld b ''Shorttext'' \<longrightarrow> fld a ''Unit'' = fld b ''Unit''"
    and e: "e \<in> set (getEntitySetData st n)"
  shows "jsprop (getFirstFoundEntity st n
                  (jsprop (getFirstFoundEntity st n (fld e ''Unit'') (Some ''Unit'')) ''Shorttext'')
                  (Some ''Shorttext'')) ''Unit''
         = fld e ''Unit''"
proof -
  have "strict_eq (fld e (key_name (Some ''Unit''))) (fld e ''Unit'')"
    using prim e by (simp add: key_name_simps strict_eq_refl)
  from getFirstFoundEntity_hit [OF e this]
  obtain r where r: "getFirstFoundEntity st n (fld e ''Unit'') (Some ''Unit'') = JObj r"
    and r_in: "r \<in> set (getEntitySetData st n)"
    and r_unit: "fld r ''Unit'' = fld e ''Unit''"
    by (auto simp: key_name_simps dest: strict_eq_eq)
  have "strict_eq (fld r (key_name (Some ''Shorttext''))) (fld r ''Shorttext'')"
    using prim r_in by (simp add: key_name_simps strict_eq_refl)
  from getFirstFoundEntity_hit [OF r_in this]
  obtain r2 where r2: "getFirstFoundEntity st n (fld r ''Shorttext'') (Some ''Shorttext'') = JObj r2"
    and r2_in: "r2 \<in> set (getEntitySetData st n)"
    and r2_text: "fld r2 ''Shorttext'' = fld r ''Shorttext''"
    by (auto simp: key_name_simps dest: strict_eq_eq)
  have "fld r2 ''Unit'' = fld r ''Unit''"
    using inj r_in r2_in r2_text by blast
  then show ?thesis
    using r r2 r_unit by simp
qed

subsection \<open>The product built from a draft\<close>

lemma buildProductFromDraft_False:
  "buildProductFromDraft st (JBool False) = (Inl TypeError, deleteProductDraft st JUndefined)"
  by (simp add: buildProductFromDraft_def)

lemma truthy_new:
  "truthy (case v of JUndefined \<Rightarrow> JBool True | b \<Rightarrow> b) = (v = JUndefined \<or> truthy v)"
  by (cases v) simp_all

lemma buildProductFromDraft_JObj:
  "buildProductFromDraft st (JObj d) =
     (Inr (let p5 = d(''__metadata'' := None, ''SubCategoryName'' := None,
                      ''MainCategoryName'' := None, ''Images'' := None,
                      ''IsNewProduct'' := None, ''ExpiresAt'' := None,
                      ''ProductId'' := None, ''IsDirty'' := None,
                      ''SubCategoryName'' \<mapsto> jsprop (getSubCategory st (fld d ''SubCategoryId'')) ''Name'',
                      ''MainCategoryName'' \<mapsto> jsprop (getMainCategory st (fld d ''MainCategoryId'')) ''Name'',
                      ''WeightUnit'' \<mapsto> getWeightText st (fld d ''WeightUnit''),
                      ''DimensionUnit'' \<mapsto> getDimensionText st (fld d ''DimensionUnit''))
           in if fld d ''IsNewProduct'' = JUndefined \<or> truthy (fld d ''IsNewProduct'')
              then (if truthy (fld d ''ImageUrl'')
                    then p5(''RatingCount'' \<mapsto> JNum 0, ''AverageRating'' \<mapsto> JNum 0,
                            ''StockQuantity'' \<mapsto> JNum 0)
                    else p5(''RatingCount'' \<mapsto> JNum 0, ''AverageRating'' \<mapsto> JNum 0,
                            ''StockQuantity'' \<mapsto> JNum 0, ''ImageUrl'' \<mapsto> JStr []))
              else p5),
      deleteProductDraft st (fld d ''Id''))"
proof -
  define p1 where "p1 = d(''__metadata'' := None, ''SubCategoryName'' := None,
                      ''MainCategoryName'' := None, ''Images'' := None,
                      ''IsNewProduct'' := None, ''ExpiresAt'' := None,
                      ''ProductId'' := None, ''IsDirty'' := None)"
  have f1: "fld p1 ''Id'' = fld d ''Id''" "fld p1 ''SubCategoryName'' = JUndefined"
    "fld p1 ''SubCategoryId'' = fld d ''SubCategoryId''"
    by (simp_all add: p1_def fld_upd)
  define p2 where "p2 = p1(''SubCategoryName'' \<mapsto>
      jsprop (getSubCategory st (fld d ''SubCategoryId'')) ''Name'')"
  have f2: "fld p2 ''MainCategoryName'' = JUndefined"
    "fld p2 ''MainCategoryId'' = fld d ''MainCategoryId''"
    by (simp_all add: p2_def p1_def fld_upd)
  define p3 where "p3 = p2(''MainCategoryName'' \<mapsto>
      jsprop (getMainCategory st (fld d ''MainCategoryId'')) ''Name'')"
  have f3: "fld p3 ''WeightUnit'' = fld d ''WeightUnit''"
    by (simp add: p3_def p2_def p1_def fld_upd)
  define p4 where "p4 = p3(''WeightUnit'' \<mapsto> getWeightText st (fld d ''WeightUnit''))"
  have f4: "fld p4 ''DimensionUnit'' = fld d ''DimensionUnit''"
    by (simp add: p4_def p3_def p2_def p1_def fld_upd)
  define p5 where "p5 = p4(''DimensionUnit'' \<mapsto> getDimensionText st (fld d ''DimensionUnit''))"
  have f5: "fld (p5(''RatingCount'' \<mapsto> JNum 0, ''AverageRating'' \<mapsto> JNum 0,
                    ''StockQuantity'' \<mapsto> JNum 0)) ''ImageUrl'' = fld d ''ImageUrl''"
    by (simp add: p5_def p4_def p3_def p2_def p1_def fld_upd)
  have "buildProductFromDraft st (JObj d) =
     (Inr (if fld d ''IsNewProduct'' = JUndefined \<or> truthy (fld d ''IsNewProduct'')
              then (if truthy (fld d ''ImageUrl'')
                    then p5(''RatingCount'' \<mapsto> JNum 0, ''AverageRating'' \<mapsto> JNum 0,
                            ''StockQuantity'' \<mapsto> JNum 0)
                    else p5(''RatingCount'' \<mapsto> JNum 0, ''AverageRating'' \<mapsto> JNum 0,
                            ''StockQuantity'' \<mapsto> JNum 0, ''ImageUrl'' \<mapsto> JStr []))
              else p5),
      deleteProductDraft st (fld d ''Id''))"
    unfolding buildProductFromDraft_def jsval.case Let_def
    apply (fold p1_def)
    apply (simp only: f1 truthy.simps not_False_eq_True if_True lookups_after_deleteProductDraft)
    apply (fold p2_def)
    apply (simp only: f2 truthy.simps not_False_eq_True if_True lookups_after_deleteProductDraft)
    apply (fold p3_def)
    apply (simp only: f3)
    apply (fold p4_def)
    apply (simp only: f4)
    apply (fold p5_def)
    apply (simp only: f5 truthy_new)
    apply simp
    done
  then show ?thesis
    by (simp only: Let_def p5_def p4_def p3_def p2_def p1_def)
qed

text \<open>The product that \<^verbatim>\<open>_buildProductFromDraft\<close> makes of a draft object, property by property.\<close>

lemma buildProductFromDraft_state:
  assumes "buildProductFromDraft st (JObj d) = (r, st1)"
  shows "st1 = deleteProductDraft st (fld d ''Id'') \<and> (\<exists>p. r = Inr p)"
  using assms unfolding buildProductFromDraft_JObj by auto

lemma buildProductFromDraft_other:
  assumes "buildProductFromDraft st (JObj d) = (Inr p, st1)"
    and "k \<notin> {''__metadata'', ''SubCategoryName'', ''MainCategoryName'', ''Images'',
               ''IsNewProduct'', ''ExpiresAt'', ''ProductId'', ''IsDirty'', ''WeightUnit'',
               ''DimensionUnit'', ''RatingCount'', ''AverageRating'', ''StockQuantity'',
               ''ImageUrl''}"
  shows "p k = d k"
  using assms unfolding buildProductFromDraft_JObj Let_def
  by (auto split: if_splits)

lemma buildProductFromDraft_Id:
  assumes "buildProductFromDraft st (JObj d) = (Inr p, st1)"
  shows "p ''Id'' = d ''Id''"
  by (rule buildProductFromDraft_other [OF assms]) simp

lemma buildProductFromDraft_names:
  assumes "buildProductFromDraft st (JObj d) = (Inr p, st1)"
  shows "p ''SubCategoryName'' = Some (jsprop (getSubCategory st (fld d ''SubCategoryId'')) ''Name'')"
    and "p ''MainCategoryName'' = Some (jsprop (getMainCategory st (fld d ''MainCategoryId'')) ''Name'')"
  using assms unfolding buildProductFromDraft_JObj Let_def
  by (auto split: if_splits)

lemma buildProductFromDraft_units:
  assumes "buildProductFromDraft st (JObj d) = (Inr p, st1)"
  shows "p ''WeightUnit'' = Some (getWeightText st (fld d ''WeightUnit''))"
    and "p ''DimensionUnit'' = Some (getDimensionText st (fld d ''DimensionUnit''))"
  using assms unfolding buildProductFromDraft_JObj Let_def
  by (auto split: if_splits)

lemma buildProductFromDraft_deleted:
  assumes "buildProductFromDraft st (JObj d) = (Inr p, st1)"
  shows "p ''__metadata'' = None" and "p ''Images'' = None" and "p ''IsNewProduct'' = None"
    and "p ''ExpiresAt'' = None" and "p ''ProductId'' = None" and "p ''IsDirty'' = None"
  using assms unfolding buildProductFromDraft_JObj Let_def
  by (auto split: if_splits)

lemma buildProductFromDraft_new:
  assumes "buildProductFromDraft st (JObj d) = (Inr p, st1)"
    and "fld d ''IsNewProduct'' = JUndefined \<or> truthy (fld d ''IsNewProduct'')"
  shows "p ''RatingCount'' = Some (JNum 0)" and "p ''AverageRating'' = Some (JNum 0)"
    and "p ''StockQuantity'' = Some (JNum 0)"
    and "p ''ImageUrl'' = (if truthy (fld d ''ImageUrl'') then d ''ImageUrl'' else Some (JStr []))"
  using assms unfolding buildProductFromDraft_JObj Let_def
  by (auto split: if_splits)

lemma buildProductFromDraft_not_new:
  assumes "buildProductFromDraft st (JObj d) = (Inr p, st1)"
    and "\<not> (fld d ''IsNewProduct'' = JUndefined \<or> truthy (fld d ''IsNewProduct''))"
  shows "p ''RatingCount'' = d ''RatingCount''" and "p ''AverageRating'' = d ''AverageRating''"
    and "p ''StockQuantity'' = d ''StockQuantity''" and "p ''ImageUrl'' = d ''ImageUrl''"
  using assms unfolding buildProductFromDraft_JObj Let_def
  by (auto split: if_splits)

subsection \<open>The activation request\<close>

lemma mockActivateProduct_missing:
  assumes "\<forall>x\<in>set (getEntitySetData st ''ProductDrafts''). fld x ''Id'' \<noteq> JStr s"
  shows "fst (mockActivateProduct st s) = Inl TypeError"
proof -
  have "getProductDraft st (JStr s) = JBool False"
    unfolding getProductDraft_def
    by (rule getFirstFoundEntity_none) (use assms in \<open>simp add: key_name_simps strict_eq_JStr\<close>)
  then show ?thesis
    by (simp add: mockActivateProduct_def Let_def buildProductFromDraft_False)
qed

text \<open>The activation of a draft that the lookup finds, in terms of the product built.\<close>

lemma mockActivateProduct_found:
  assumes "getProductDraft st (JStr sId) = JObj d"
    and "buildProductFromDraft st (JObj d) = (Inr p, st1)"
  shows "mockActivateProduct st sId =
           (Inr (getProduct
                   (if fld d ''IsNewProduct'' = JUndefined \<or> truthy (fld d ''IsNewProduct'')
                    then createProduct st1 p else updateProduct st1 (fld p ''Id'') (JObj p))
                   (fld p ''Id'')),
            if fld d ''IsNewProduct'' = JUndefined \<or> truthy (fld d ''IsNewProduct'')
            then createProduct st1 p else updateProduct st1 (fld p ''Id'') (JObj p))"
  using assms by (auto simp: mockActivateProduct_def Let_def)

lemma mockActivateProduct_drafts:
  "\<exists>v. getEntitySetData (snd (mockActivateProduct st sId)) ''ProductDrafts''
         = filter (\<lambda>r. \<not> strict_eq (fld r ''Id'') v) (getEntitySetData st ''ProductDrafts'')"
proof -
  from getFirstFoundEntity_cases [of st "''ProductDrafts''" "JStr sId" None]
  consider "getProductDraft st (JStr sId) = JBool False"
    | d where "getProductDraft st (JStr sId) = JObj d"
    unfolding getProductDraft_def by blast
  then show ?thesis
  proof cases
    case 1
    then have "snd (mockActivateProduct st sId) = deleteProductDraft st JUndefined"
      by (simp add: mockActivateProduct_def Let_def buildProductFromDraft_False)
    then show ?thesis
      by (auto simp: deleteProductDraft_rows)
  next
    case 2
    obtain p st1 where build: "buildProductFromDraft st (JObj d) = (Inr p, st1)"
      using buildProductFromDraft_state [of st d] by (metis surj_pair)
    have st1: "st1 = deleteProductDraft st (fld d ''Id'')"
      using buildProductFromDraft_state [OF build] by simp
    have "getEntitySetData (snd (mockActivateProduct st sId)) ''ProductDrafts''
            = getEntitySetData st1 ''ProductDrafts''"
      unfolding mockActivateProduct_found [OF 2 build]
      by (simp add: createProduct_rows updateProduct_rows)
    then show ?thesis
      unfolding st1 by (auto simp: deleteProductDraft_rows)
  qed
qed

lemma mockActivateProduct_draft_gone:
  "\<forall>x\<in>set (getEntitySetData (snd (mockActivateProduct st sId)) ''ProductDrafts'').
     fld x ''Id'' \<noteq> JStr sId"
proof -
  from getFirstFoundEntity_cases [of st "''ProductDrafts''" "JStr sId" None]
  consider "getProductDraft st (JStr sId) = JBool False"
    | d where "getProductDraft st (JStr sId) = JObj d"
    unfolding getProductDraft_def by blast
  then show ?thesis
  proof cases
    case 1
    have none: "\<forall>x\<in>set (getEntitySetData st ''ProductDrafts''). fld x ''Id'' \<noteq> JStr sId"
    proof (rule ccontr)
      assume "\<not> ?thesis"
      then obtain x where "x \<in> set (getEntitySetData st ''ProductDrafts'')"
        and "strict_eq (fld x (key_name None)) (JStr sId)"
        by (auto simp: key_name_simps strict_eq_JStr)
      from getFirstFoundEntity_hit [OF this] show False
        using 1 by (simp add: getProductDraft_def)
    qed
    obtain v where "getEntitySetData (snd (mockActivateProduct st sId)) ''ProductDrafts''
         = filter (\<lambda>r. \<not> strict_eq (fld r ''Id'') v) (getEntitySetData st ''ProductDrafts'')"
      using mockActivateProduct_drafts by blast
    then show ?thesis
      using none by simp
  next
    case 2
    obtain p st1 where build: "buildProductFromDraft st (JObj d) = (Inr p, st1)"
      using buildProductFromDraft_state [of st d] by (metis surj_pair)
    have st1: "st1 = deleteProductDraft st (JStr sId)"
      using buildProductFromDraft_state [OF build] getProductDraft_JObjD(2) [OF 2] by simp
    have "getEntitySetData (snd (mockActivateProduct st sId)) ''ProductDrafts''
            = getEntitySetData st1 ''ProductDrafts''"
      unfolding mockActivateProduct_found [OF 2 build]
      by (simp add: createProduct_rows updateProduct_rows)
    then show ?thesis
      unfolding st1 by (simp add: deleteProductDraft_rows strict_eq_JStr)
  qed
qed

subsection \<open>The add request\<close>

lemma mockAddProduct_draft_ids:
  "map (\<lambda>d. fld d ''Id'') (getEntitySetData (snd (mockAddProduct st oDraft)) ''ProductDrafts'')
     = map (\<lambda>d. fld d ''Id'') (getEntitySetData st ''ProductDrafts'')"
proof -
  have Id_kept: "fld (jQuery_extend r (JObj oNewDraftDefaultValues)) ''Id'' = fld r ''Id''" for r
    by (simp add: fld_def jQuery_extend_def oNewDraftDefaultValues_def)
  have upd: "map (\<lambda>d. fld d ''Id'')
               (getEntitySetData (updateProductDraft st v (JObj oNewDraftDefaultValues)) ''ProductDrafts'')
             = map (\<lambda>d. fld d ''Id'') (getEntitySetData st ''ProductDrafts'')" for v
    by (simp add: updateProductDraft_def updateEntity_rows Id_kept comp_def if_distrib
        cong: if_cong)
  show ?thesis
    by (cases oDraft) (simp_all add: mockAddProduct_def upd)
qed

subsection \<open>The draft that is created\<close>

text \<open>The store after \<^verbatim>\<open>_createDraft\<close>: the draft object that reaches \<^verbatim>\<open>_createProductDraft\<close>.\<close>

lemma createDraft_state:
  "snd (createDraft st s b) =
     createProductDraft (if b then st\<lparr>iLastId := iLastId st + 1\<rparr> else st)
       ((jQuery_extend Map.empty (getProduct st (JStr s)))
          (''HasReviewOfCurrentUser'' := None, ''RatingCount'' := None,
           ''IsFavoriteOfCurrentUser'' := None, ''StockQuantity'' := None,
           ''AverageRating'' := None, ''__metadata'' := None,
           ''CreatedBy'' \<mapsto> JStr ''Test User'', ''IsNewProduct'' \<mapsto> JBool b,
           ''IsDirty'' \<mapsto> JBool False,
           ''Id'' \<mapsto> (if b then JStr (''EPM-'' @ string_of_nat (iLastId st + 1)) else JStr s),
           ''ProductId'' \<mapsto> (if b then JStr (''EPM-'' @ string_of_nat (iLastId st + 1)) else JStr s),
           ''WeightUnit'' \<mapsto> getWeightUnit st (jsprop (getProduct st (JStr s)) ''WeightUnit''),
           ''DimensionUnit'' \<mapsto>
              getDimensionUnit st (jsprop (getProduct st (JStr s)) ''DimensionUnit'')))"
  unfolding createDraft_def Let_def getNewId_def
  by (cases b) (simp_all only: if_True if_False split_conv snd_conv lookups_iLastId)

lemma createDraft_sets:
  "getEntitySetData (snd (createDraft st s b)) n =
     (if n = ''ProductDrafts''
      then getEntitySetData st ''ProductDrafts'' @ [created_draft st s b]
      else getEntitySetData st n)"
  unfolding created_draft_def createDraft_state
  by (cases b) (simp_all add: createProductDraft_rows getEntitySetData_iLastId)

lemma createDraft_iLastId:
  "iLastId (snd (createDraft st s b)) = (if b then iLastId st + 1 else iLastId st)"
  unfolding createDraft_state
  by (simp add: createProductDraft_def Let_def iLastId_set)

lemma createDraft_rootUri:
  "getRootUri (snd (createDraft st s b)) = getRootUri st"
  unfolding createDraft_state
  by (simp add: createProductDraft_def Let_def getRootUri_set getRootUri_iLastId)

lemma created_draft_eq:
  "created_draft st s b =
     ((jQuery_extend Map.empty (getProduct st (JStr s)))
          (''HasReviewOfCurrentUser'' := None, ''RatingCount'' := None,
           ''IsFavoriteOfCurrentUser'' := None, ''StockQuantity'' := None,
           ''AverageRating'' := None, ''__metadata'' := None,
           ''CreatedBy'' \<mapsto> JStr ''Test User'', ''IsNewProduct'' \<mapsto> JBool b,
           ''IsDirty'' \<mapsto> JBool False,
           ''Id'' \<mapsto> new_draft_id st s b,
           ''ProductId'' \<mapsto> new_draft_id st s b,
           ''WeightUnit'' \<mapsto> getWeightUnit st (jsprop (getProduct st (JStr s)) ''WeightUnit''),
           ''DimensionUnit'' \<mapsto>
              getDimensionUnit st (jsprop (getProduct st (JStr s)) ''DimensionUnit''),
           ''Images'' \<mapsto> JObj (map_of
            [(''__deferred'', JObj (map_of
               [(''uri'', JStr (getRootUri st @ ''ProductDrafts('' @ [CHR 0x27]
                                @ js_to_string (new_draft_id st s b) @ [CHR 0x27] @ '')/Images''))]))]),
           ''__metadata'' \<mapsto> JObj (map_of
             [(''id'', JStr (getRootUri st @ ''ProductDrafts'' @ ''('' @ [CHR 0x27]
                        @ js_to_string (new_draft_id st s b) @ [CHR 0x27] @ '')'')),
              (''type'', JStr (''EPM_REF_APPS_PROD_MAN_SRV.'' @ ''ProductDraft'')),
              (''uri'', JStr (getRootUri st @ ''ProductDrafts'' @ ''('' @ [CHR 0x27]
                        @ js_to_string (new_draft_id st s b) @ [CHR 0x27] @ '')''))])))"
  unfolding created_draft_def createDraft_state
  by (cases b)
     (simp_all add: createProductDraft_rows extendMetadata_def fld_upd getRootUri_iLastId)

lemma created_draft_Id:
  "created_draft st s b ''Id'' = Some (new_draft_id st s b)"
  "created_draft st s b ''ProductId'' = Some (new_draft_id st s b)"
  unfolding created_draft_eq by simp_all

lemma created_draft_stamps:
  "created_draft st s b ''CreatedBy'' = Some (JStr ''Test User'')"
  "created_draft st s b ''IsNewProduct'' = Some (JBool b)"
  "created_draft st s b ''IsDirty'' = Some (JBool False)"
  unfolding created_draft_eq by simp_all

lemma created_draft_deleted:
  "created_draft st s b ''HasReviewOfCurrentUser'' = None"
  "created_draft st s b ''RatingCount'' = None"
  "created_draft st s b ''IsFavoriteOfCurrentUser'' = None"
  "created_draft st s b ''StockQuantity'' = None"
  "created_draft st s b ''AverageRating'' = None"
  unfolding created_draft_eq by simp_all

lemma created_draft_other:
  assumes "k \<notin> {''HasReviewOfCurrentUser'', ''RatingCount'', ''IsFavoriteOfCurrentUser'',
               ''StockQuantity'', ''AverageRating'', ''__metadata'', ''CreatedBy'',
               ''IsNewProduct'', ''IsDirty'', ''Id'', ''ProductId'', ''WeightUnit'',
               ''DimensionUnit'', ''Images''}"
  shows "created_draft st s b k = jQuery_extend Map.empty (getProduct st (JStr s)) k"
  unfolding created_draft_eq using assms by simp

lemma createDraft_length:
  "length (getEntitySetData (snd (createDraft st s b)) ''ProductDrafts'')
     = Suc (length (getEntitySetData st ''ProductDrafts''))"
  by (simp add: createDraft_def Let_def getNewId_def split_def createProductDraft_rows getEntitySetData_iLastId)

subsection \<open>An edit draft and its activation\<close>

lemma getProduct_after_update:
  assumes src: "getProduct st (JStr sId) = JObj P"
    and rows: "getEntitySetData st2 ''Products''
                 = map (\<lambda>r. if fld r ''Id'' = JStr sId then jQuery_extend r (JObj p) else r)
                     (getEntitySetData st ''Products'')"
    and pid: "p ''Id'' = Some (JStr sId)"
  shows "getProduct st2 (JStr sId) = JObj (jQuery_extend P (JObj p))"
proof -
  let ?f = "\<lambda>r. if fld r ''Id'' = JStr sId then jQuery_extend r (JObj p) else r"
  let ?Q = "\<lambda>r. fld r ''Id'' = JStr sId"
  have ext_id: "fld (jQuery_extend r (JObj p)) ''Id'' = JStr sId" for r
    by (simp add: fld_def jQuery_extend_def pid)
  have Qf: "?Q (?f r) = ?Q r" for r
    by (simp add: ext_id)
  have "filter ?Q (map ?f (getEntitySetData st ''Products''))
          = map ?f (filter ?Q (getEntitySetData st ''Products''))"
    by (simp add: filter_map comp_def Qf)
  moreover obtain rest where "filter ?Q (getEntitySetData st ''Products'') = P # rest"
    using src
    by (auto simp: getProduct_def getFirstFoundEntity_def key_name_simps strict_eq_JStr
        split: list.splits)
  moreover have "?Q P"
    using getProduct_JObjD(2) [OF src] .
  ultimately show ?thesis
    by (simp add: getProduct_def getFirstFoundEntity_def key_name_simps strict_eq_JStr rows)
qed

text \<open>
  The edit request followed by the activation request for the same id, when no draft had
  that id before: the draft activated is the draft just created.
\<close>

lemma edit_then_activate:
  assumes nodraft: "\<forall>x\<in>set (getEntitySetData st ''ProductDrafts''). fld x ''Id'' \<noteq> JStr sId"
  shows "\<exists>p. buildProductFromDraft (snd (mockEditProduct st sId)) (JObj (created_draft st sId False))
               = (Inr p, deleteProductDraft (snd (mockEditProduct st sId)) (JStr sId))
          \<and> snd (mockActivateProduct (snd (mockEditProduct st sId)) sId)
               = updateProduct (deleteProductDraft (snd (mockEditProduct st sId)) (JStr sId))
                   (JStr sId) (JObj p)
          \<and> fst (mockActivateProduct (snd (mockEditProduct st sId)) sId)
               = Inr (getProduct (snd (mockActivateProduct (snd (mockEditProduct st sId)) sId))
                        (JStr sId))
          \<and> getEntitySetData (snd (mockActivateProduct (snd (mockEditProduct st sId)) sId)) ''Products''
               = map (\<lambda>r. if fld r ''Id'' = JStr sId then jQuery_extend r (JObj p) else r)
                   (getEntitySetData st ''Products'')
          \<and> getEntitySetData (snd (mockActivateProduct (snd (mockEditProduct st sId)) sId))
               ''ProductDrafts''
               = getEntitySetData st ''ProductDrafts''"
proof -
  let ?st1 = "snd (mockEditProduct st sId)"
  let ?r = "created_draft st sId False"
  have sets1: "getEntitySetData ?st1 n =
     (if n = ''ProductDrafts'' then getEntitySetData st ''ProductDrafts'' @ [?r]
      else getEntitySetData st n)" for n
    by (simp add: mockEditProduct_def createDraft_sets)
  have r_id: "fld ?r ''Id'' = JStr sId"
    by (rule fld_Some) (simp add: created_draft_Id)
  have r_old: "fld ?r ''IsNewProduct'' = JBool False"
    by (rule fld_Some) (simp add: created_draft_stamps)
  have found: "getProductDraft ?st1 (JStr sId) = JObj ?r"
    unfolding getProductDraft_def
  proof (rule getFirstFoundEntity_found)
    show "getEntitySetData ?st1 ''ProductDrafts'' = getEntitySetData st ''ProductDrafts'' @ ?r # []"
      by (simp add: sets1)
    show "\<forall>x\<in>set (getEntitySetData st ''ProductDrafts''). \<not> strict_eq (fld x (key_name None)) (JStr sId)"
      using nodraft by (simp add: key_name_simps strict_eq_JStr)
    show "strict_eq (fld ?r (key_name None)) (JStr sId)"
      by (simp add: key_name_simps strict_eq_JStr r_id)
  qed
  obtain p st1' where build: "buildProductFromDraft ?st1 (JObj ?r) = (Inr p, st1')"
    using buildProductFromDraft_state [of ?st1 ?r] by (metis surj_pair)
  have st1': "st1' = deleteProductDraft ?st1 (JStr sId)"
    using buildProductFromDraft_state [OF build] r_id by simp
  have p_id: "fld p ''Id'' = JStr sId"
    using fld_cong [of p "''Id''" ?r, OF buildProductFromDraft_Id [OF build]] r_id by simp
  have act: "mockActivateProduct ?st1 sId
      = (Inr (getProduct (updateProduct st1' (JStr sId) (JObj p)) (JStr sId)),
         updateProduct st1' (JStr sId) (JObj p))"
    using mockActivateProduct_found [OF found build] by (simp add: r_old p_id)
  have products: "getEntitySetData (updateProduct st1' (JStr sId) (JObj p)) ''Products''
               = map (\<lambda>r. if fld r ''Id'' = JStr sId then jQuery_extend r (JObj p) else r)
                   (getEntitySetData st ''Products'')"
    unfolding st1' by (simp add: updateProduct_rows deleteProductDraft_rows sets1 strict_eq_JStr)
  have drafts: "getEntitySetData (updateProduct st1' (JStr sId) (JObj p)) ''ProductDrafts''
               = getEntitySetData st ''ProductDrafts''"
    unfolding st1'
    using nodraft
    by (simp add: updateProduct_rows deleteProductDraft_rows sets1 strict_eq_JStr r_id)
  show ?thesis
    using build products drafts unfolding act st1' fst_conv snd_conv by blast
qed

subsection \<open>The example stores\<close>

lemma store_scenario_rows:
  "getEntitySetData store_scenario ''ProductDrafts'' = [draft_EPM1]"
  "getEntitySetData store_scenario ''SubCategories'' = [row_S1]"
  "getEntitySetData store_scenario ''MainCategories'' = [row_M1]"
  "getEntitySetData store_scenario ''Products'' = []"
  "getEntitySetData store_scenario ''WeightUnits'' = []"
  "getEntitySetData store_scenario ''DimensionUnits'' = []"
  by (simp_all add: store_scenario_def getEntitySetData_def)

lemma store_edit_rows:
  "getEntitySetData store_edit ''ProductDrafts'' = [draft_P1]"
  "getEntitySetData store_edit ''Products'' = [product_P1]"
  "getEntitySetData store_edit ''SubCategories'' = [row_S1]"
  "getEntitySetData store_edit ''MainCategories'' = [row_M1]"
  by (simp_all add: store_edit_def getEntitySetData_def)

lemma store_product_rows:
  "getEntitySetData store_product ''Products'' = [product_P1]"
  "getEntitySetData store_product ''ProductDrafts'' = []"
  "getEntitySetData store_product ''SubCategories'' = [row_S1]"
  "getEntitySetData store_product ''MainCategories'' = [row_M1]"
  "getEntitySetData store_product ''WeightUnits'' = []"
  "getEntitySetData store_product ''DimensionUnits'' = []"
  by (simp_all add: store_product_def getEntitySetData_def)

lemma category_rows:
  "fld row_S1 ''Id'' = JStr ''S1''" "fld row_S1 ''Name'' = JStr ''Snacks''"
  "fld row_M1 ''Id'' = JStr ''M1''" "fld row_M1 ''Name'' = JStr ''Food''"
  by (simp_all add: row_S1_def row_M1_def fld_def)

lemma getSubCategory_S1:
  "getEntitySetData st ''SubCategories'' = [row_S1] \<Longrightarrow> getSubCategory st (JStr ''S1'') = JObj row_S1"
  by (simp add: getSubCategory_def getFirstFoundEntity_def key_name_simps strict_eq_JStr
      category_rows)

lemma getMainCategory_M1:
  "getEntitySetData st ''MainCategories'' = [row_M1] \<Longrightarrow> getMainCategory st (JStr ''M1'') = JObj row_M1"
  by (simp add: getMainCategory_def getFirstFoundEntity_def key_name_simps strict_eq_JStr
      category_rows)

text \<open>The activation of a new draft of the scenario's shape, against the scenario's categories.\<close>

lemma activate_new_S1_M1:
  assumes found: "getProductDraft st (JStr sId) = JObj d"
    and new: "fld d ''IsNewProduct'' = JBool True"
    and sub: "fld d ''SubCategoryId'' = JStr ''S1''"
    and main: "fld d ''MainCategoryId'' = JStr ''M1''"
    and subs: "getEntitySetData st ''SubCategories'' = [row_S1]"
    and mains: "getEntitySetData st ''MainCategories'' = [row_M1]"
  shows "\<exists>r. getEntitySetData (snd (mockActivateProduct st sId)) ''Products''
               = getEntitySetData st ''Products'' @ [r]
           \<and> fld r ''Id'' = JStr sId
           \<and> fld r ''SubCategoryName'' = JStr ''Snacks''
           \<and> fld r ''MainCategoryName'' = JStr ''Food''
           \<and> fld r ''RatingCount'' = JNum 0
           \<and> fld r ''AverageRating'' = JNum 0
           \<and> fld r ''StockQuantity'' = JNum 0"
proof -
  obtain p st1 where build: "buildProductFromDraft st (JObj d) = (Inr p, st1)"
    using buildProductFromDraft_state [of st d] by (metis surj_pair)
  have is_new: "fld d ''IsNewProduct'' = JUndefined \<or> truthy (fld d ''IsNewProduct'')"
    using new by simp
  have st1: "st1 = deleteProductDraft st (fld d ''Id'')"
    using buildProductFromDraft_state [OF build] by simp
  have "snd (mockActivateProduct st sId) = createProduct st1 p"
    using mockActivateProduct_found [OF found build] is_new by simp
  then have rows: "getEntitySetData (snd (mockActivateProduct st sId)) ''Products''
      = getEntitySetData st ''Products'' @ [extendMetadata st1 p ''Product'' ''Products'']"
    by (simp add: createProduct_rows st1 deleteProductDraft_rows)
  have "fld p ''Id'' = JStr sId"
    using fld_cong [of p "''Id''" d, OF buildProductFromDraft_Id [OF build]]
      getProductDraft_JObjD(2) [OF found]
    by simp
  moreover have "fld p ''SubCategoryName'' = JStr ''Snacks''"
  proof (rule fld_Some)
    show "p ''SubCategoryName'' = Some (JStr ''Snacks'')"
      using buildProductFromDraft_names(1) [OF build] getSubCategory_S1 [OF subs]
      by (simp add: sub category_rows)
  qed
  moreover have "fld p ''MainCategoryName'' = JStr ''Food''"
  proof (rule fld_Some)
    show "p ''MainCategoryName'' = Some (JStr ''Food'')"
      using buildProductFromDraft_names(2) [OF build] getMainCategory_M1 [OF mains]
      by (simp add: main category_rows)
  qed
  moreover have "fld p ''RatingCount'' = JNum 0" "fld p ''AverageRating'' = JNum 0"
    "fld p ''StockQuantity'' = JNum 0"
    using buildProductFromDraft_new(1-3) [OF build is_new] by (simp_all add: fld_Some)
  ultimately show ?thesis
    using rows by (simp add: fld_extendMetadata)
qed

section \<open>C1: activation creates or updates the product and deletes the draft\<close>

text \<open>
  Claim C1 is about every draft in \<^verbatim>\<open>ProductDrafts\<close>. The activation request gets an id, not
  a draft, and works on the first draft with that id; nothing keeps two drafts from having
  one id. In the store with the drafts \<^verbatim>\<open>EPM-1\<close> (new) and \<^verbatim>\<open>EPM-1\<close> again (an edit, with
  \<^verbatim>\<open>IsNewProduct = false\<close>) and the product \<^verbatim>\<open>EPM-1\<close>, activating the second draft means
  activating \<^verbatim>\<open>EPM-1\<close>: the product is built from the first draft and appended, so
  \<^verbatim>\<open>Products\<close> grows from one row to two although the draft has \<^verbatim>\<open>IsNewProduct = false\<close>, and
  both drafts are removed.
\<close>

theorem activate_shadowed_draft_counterexample:
  "getEntitySetData store_two_drafts ''ProductDrafts'' ! 1 = draft_EPM1_edit
   \<and> fld draft_EPM1_edit ''Id'' = JStr ''EPM-1''
   \<and> fld draft_EPM1_edit ''IsNewProduct'' = JBool False
   \<and> length (getEntitySetData store_two_drafts ''Products'') = 1
   \<and> length (getEntitySetData (snd (mockActivateProduct store_two_drafts ''EPM-1'')) ''Products'') = 2
   \<and> getEntitySetData (snd (mockActivateProduct store_two_drafts ''EPM-1'')) ''ProductDrafts'' = []"
proof -
  have rows: "getEntitySetData store_two_drafts ''ProductDrafts'' = [draft_EPM1, draft_EPM1_edit]"
    "getEntitySetData store_two_drafts ''Products'' = [product_EPM1]"
    "getEntitySetData store_two_drafts ''SubCategories'' = [row_S1]"
    "getEntitySetData store_two_drafts ''MainCategories'' = [row_M1]"
    by (simp_all add: store_two_drafts_def getEntitySetData_def)
  have d: "fld draft_EPM1 ''Id'' = JStr ''EPM-1''" "fld draft_EPM1 ''IsNewProduct'' = JBool True"
    "fld draft_EPM1 ''SubCategoryId'' = JStr ''S1''" "fld draft_EPM1 ''MainCategoryId'' = JStr ''M1''"
    by (simp_all add: draft_EPM1_def fld_def)
  have e: "fld draft_EPM1_edit ''Id'' = JStr ''EPM-1''"
    "fld draft_EPM1_edit ''IsNewProduct'' = JBool False"
    by (simp_all add: draft_EPM1_edit_def fld_def)
  have found: "getProductDraft store_two_drafts (JStr ''EPM-1'') = JObj draft_EPM1"
    by (rule getProductDraft_first [OF rows(1) d(1)])
  from activate_new_S1_M1 [OF found d(2) d(3) d(4) rows(3) rows(4)]
  have grown: "length (getEntitySetData (snd (mockActivateProduct store_two_drafts ''EPM-1''))
                  ''Products'') = 2"
    by (auto simp: rows(2))
  have "\<forall>x\<in>set (getEntitySetData (snd (mockActivateProduct store_two_drafts ''EPM-1''))
                  ''ProductDrafts''). fld x ''Id'' \<noteq> JStr ''EPM-1''"
    by (rule mockActivateProduct_draft_gone)
  moreover obtain v where
    "getEntitySetData (snd (mockActivateProduct store_two_drafts ''EPM-1'')) ''ProductDrafts''
       = filter (\<lambda>r. \<not> strict_eq (fld r ''Id'') v) [draft_EPM1, draft_EPM1_edit]"
    using mockActivateProduct_drafts [of store_two_drafts "''EPM-1''"] by (auto simp: rows(1))
  ultimately have gone:
    "getEntitySetData (snd (mockActivateProduct store_two_drafts ''EPM-1'')) ''ProductDrafts'' = []"
    using d(1) e(1) by (auto split: if_splits)
  show ?thesis
    using grown gone e by (simp add: rows)
qed

text \<open>
  Claim C1 as amended. Let \<open>d\<close> be the draft that the activation request finds under the
  draft id of its URL: the first draft of \<^verbatim>\<open>ProductDrafts\<close> whose \<^verbatim>\<open>Id\<close> is that string, which
  is every draft with a string \<^verbatim>\<open>Id\<close> when no two drafts have the same \<^verbatim>\<open>Id\<close>. The request
  builds a product from \<open>d\<close>, with the id of \<open>d\<close>, and never raises. Afterwards no draft
  with that id is left in \<^verbatim>\<open>ProductDrafts\<close> (so \<open>d\<close> is gone) and the other drafts are as
  before. When \<^verbatim>\<open>IsNewProduct\<close> of \<open>d\<close> is \<^verbatim>\<open>true\<close> or \<^verbatim>\<open>undefined\<close>, \<^verbatim>\<open>Products\<close> is the old
  collection followed by exactly one new row, the product built with its addressing
  metadata. When \<^verbatim>\<open>IsNewProduct\<close> is \<^verbatim>\<open>false\<close>, the properties of the product built are
  merged into every row of \<^verbatim>\<open>Products\<close> with that id, the other rows stay as they are, and
  the length of \<^verbatim>\<open>Products\<close> does not change.
\<close>

theorem activate_creates_or_updates:
  assumes "getProductDraft st (JStr sId) = JObj d"
  shows "\<exists>p. buildProductFromDraft st (JObj d) = (Inr p, deleteProductDraft st (JStr sId))
      \<and> fld p ''Id'' = JStr sId
      \<and> fst (mockActivateProduct st sId)
          = Inr (getProduct (snd (mockActivateProduct st sId)) (JStr sId))
      \<and> getEntitySetData (snd (mockActivateProduct st sId)) ''ProductDrafts''
          = filter (\<lambda>r. fld r ''Id'' \<noteq> JStr sId) (getEntitySetData st ''ProductDrafts'')
      \<and> d \<notin> set (getEntitySetData (snd (mockActivateProduct st sId)) ''ProductDrafts'')
      \<and> (fld d ''IsNewProduct'' = JBool True \<or> fld d ''IsNewProduct'' = JUndefined \<longrightarrow>
           getEntitySetData (snd (mockActivateProduct st sId)) ''Products''
             = getEntitySetData st ''Products'' @ [extendMetadata st p ''Product'' ''Products''])
      \<and> (fld d ''IsNewProduct'' = JBool False \<longrightarrow>
           getEntitySetData (snd (mockActivateProduct st sId)) ''Products''
             = map (\<lambda>r. if fld r ''Id'' = JStr sId then jQuery_extend r (JObj p) else r)
                 (getEntitySetData st ''Products'')
           \<and> length (getEntitySetData (snd (mockActivateProduct st sId)) ''Products'')
             = length (getEntitySetData st ''Products''))
      \<and> (drafts_unique st \<and> d' \<in> set (getEntitySetData st ''ProductDrafts'')
           \<and> fld d' ''Id'' = JStr s' \<longrightarrow> getProductDraft st (JStr s') = JObj d')"
proof -
  have every: "drafts_unique st \<and> d' \<in> set (getEntitySetData st ''ProductDrafts'')
           \<and> fld d' ''Id'' = JStr s' \<longrightarrow> getProductDraft st (JStr s') = JObj d'"
    using getProductDraft_unique by blast
  have d_id: "fld d ''Id'' = JStr sId"
    using assms by (rule getProductDraft_JObjD)
  obtain p where build: "buildProductFromDraft st (JObj d) = (Inr p, deleteProductDraft st (JStr sId))"
    using buildProductFromDraft_state [of st d] d_id
    by (metis surj_pair)
  have p_id: "p ''Id'' = d ''Id''"
    using build by (rule buildProductFromDraft_Id)
  have p_Id: "fld p ''Id'' = JStr sId"
    using p_id d_id by (simp add: fld_def)
  let ?st1 = "deleteProductDraft st (JStr sId)"
  let ?new = "fld d ''IsNewProduct'' = JUndefined \<or> truthy (fld d ''IsNewProduct'')"
  let ?st2 = "if ?new then createProduct ?st1 p else updateProduct ?st1 (JStr sId) (JObj p)"
  have act: "mockActivateProduct st sId = (Inr (getProduct ?st2 (JStr sId)), ?st2)"
    using mockActivateProduct_found [OF assms build] by (simp only: p_Id)
  have drafts: "getEntitySetData ?st2 ''ProductDrafts''
                  = filter (\<lambda>r. fld r ''Id'' \<noteq> JStr sId) (getEntitySetData st ''ProductDrafts'')"
    by (simp add: createProduct_rows updateProduct_rows deleteProductDraft_rows strict_eq_JStr)
  have gone: "d \<notin> set (getEntitySetData ?st2 ''ProductDrafts'')"
    unfolding drafts using d_id by simp
  have created: "fld d ''IsNewProduct'' = JBool True \<or> fld d ''IsNewProduct'' = JUndefined \<longrightarrow>
           getEntitySetData ?st2 ''Products''
             = getEntitySetData st ''Products'' @ [extendMetadata st p ''Product'' ''Products'']"
    by (auto simp: createProduct_rows deleteProductDraft_rows extendMetadata_after_deleteProductDraft)
  have updated: "fld d ''IsNewProduct'' = JBool False \<longrightarrow>
           getEntitySetData ?st2 ''Products''
             = map (\<lambda>r. if fld r ''Id'' = JStr sId then jQuery_extend r (JObj p) else r)
                 (getEntitySetData st ''Products'')
           \<and> length (getEntitySetData ?st2 ''Products'') = length (getEntitySetData st ''Products'')"
    by (auto simp: updateProduct_rows deleteProductDraft_rows strict_eq_JStr)
  show ?thesis
    using build p_Id drafts gone created updated every unfolding act fst_conv snd_conv
    by blast
qed

text \<open>
  The scenario draft \<^verbatim>\<open>EPM-1\<close> is new: its activation appends one product with that id and
  empties the drafts. The draft of \<^verbatim>\<open>P1\<close> is an edit: its activation renames the one product
  and empties the drafts.
\<close>

theorem activate_creates_or_updates_witness:
  "map (\<lambda>r. fld r ''Id'')
      (getEntitySetData (snd (mockActivateProduct store_scenario ''EPM-1'')) ''Products'')
     = [JStr ''EPM-1'']
   \<and> getEntitySetData (snd (mockActivateProduct store_scenario ''EPM-1'')) ''ProductDrafts'' = []
   \<and> map (\<lambda>r. fld r ''Name'')
       (getEntitySetData (snd (mockActivateProduct store_edit ''P1'')) ''Products'')
     = [JStr ''Crisps'']
   \<and> length (getEntitySetData (snd (mockActivateProduct store_edit ''P1'')) ''Products'') = 1
   \<and> getEntitySetData (snd (mockActivateProduct store_edit ''P1'')) ''ProductDrafts'' = []
   \<and> drafts_unique store_scenario
   \<and> getProductDraft store_scenario (JStr ''EPM-1'') = JObj draft_EPM1"
proof -
  have d1: "getProductDraft store_scenario (JStr ''EPM-1'') = JObj draft_EPM1"
    by (rule getProductDraft_first) (simp_all add: store_scenario_rows draft_EPM1_def fld_def)
  have n1: "fld draft_EPM1 ''IsNewProduct'' = JBool True" and i1: "fld draft_EPM1 ''Id'' = JStr ''EPM-1''"
    by (simp_all add: draft_EPM1_def fld_def)
  from activate_creates_or_updates [OF d1] n1
  obtain p where p: "fld p ''Id'' = JStr ''EPM-1''"
    and rows1: "getEntitySetData (snd (mockActivateProduct store_scenario ''EPM-1'')) ''Products''
                 = getEntitySetData store_scenario ''Products''
                   @ [extendMetadata store_scenario p ''Product'' ''Products'']"
    and drafts1: "getEntitySetData (snd (mockActivateProduct store_scenario ''EPM-1'')) ''ProductDrafts''
                 = filter (\<lambda>r. fld r ''Id'' \<noteq> JStr ''EPM-1'')
                     (getEntitySetData store_scenario ''ProductDrafts'')"
    by blast
  have a: "map (\<lambda>r. fld r ''Id'')
      (getEntitySetData (snd (mockActivateProduct store_scenario ''EPM-1'')) ''Products'')
     = [JStr ''EPM-1'']"
    unfolding rows1 by (simp add: store_scenario_rows fld_extendMetadata p)
  have b: "getEntitySetData (snd (mockActivateProduct store_scenario ''EPM-1'')) ''ProductDrafts'' = []"
    unfolding drafts1 by (simp add: store_scenario_rows i1)
  have d2: "getProductDraft store_edit (JStr ''P1'') = JObj draft_P1"
    by (rule getProductDraft_first) (simp_all add: store_edit_rows draft_P1_def fld_def)
  have n2: "fld draft_P1 ''IsNewProduct'' = JBool False" and i2: "fld draft_P1 ''Id'' = JStr ''P1''"
    and nm: "draft_P1 ''Name'' = Some (JStr ''Crisps'')"
    by (simp_all add: draft_P1_def fld_def)
  from activate_creates_or_updates [OF d2] n2
  obtain q where q: "buildProductFromDraft store_edit (JObj draft_P1)
                       = (Inr q, deleteProductDraft store_edit (JStr ''P1''))"
    and rows2: "getEntitySetData (snd (mockActivateProduct store_edit ''P1'')) ''Products''
             = map (\<lambda>r. if fld r ''Id'' = JStr ''P1'' then jQuery_extend r (JObj q) else r)
                 (getEntitySetData store_edit ''Products'')"
    and len2: "length (getEntitySetData (snd (mockActivateProduct store_edit ''P1'')) ''Products'')
             = length (getEntitySetData store_edit ''Products'')"
    and drafts2: "getEntitySetData (snd (mockActivateProduct store_edit ''P1'')) ''ProductDrafts''
                 = filter (\<lambda>r. fld r ''Id'' \<noteq> JStr ''P1'')
                     (getEntitySetData store_edit ''ProductDrafts'')"
    by blast
  have "q ''Name'' = draft_P1 ''Name''"
    by (rule buildProductFromDraft_other [OF q]) simp
  then have qn: "q ''Name'' = Some (JStr ''Crisps'')"
    using nm by simp
  have pid: "fld product_P1 ''Id'' = JStr ''P1''"
    by (simp add: product_P1_def fld_def)
  have c: "map (\<lambda>r. fld r ''Name'')
       (getEntitySetData (snd (mockActivateProduct store_edit ''P1'')) ''Products'')
     = [JStr ''Crisps'']"
  proof -
    have "fld (jQuery_extend product_P1 (JObj q)) ''Name'' = JStr ''Crisps''"
      by (simp add: fld_def jQuery_extend_def qn)
    then show ?thesis
      unfolding rows2 by (simp add: store_edit_rows pid)
  qed
  have e: "getEntitySetData (snd (mockActivateProduct store_edit ''P1'')) ''ProductDrafts'' = []"
    unfolding drafts2 by (simp add: store_edit_rows i2)
  have u: "drafts_unique store_scenario"
    by (simp add: drafts_unique_def store_scenario_rows)
  have m: "draft_EPM1 \<in> set (getEntitySetData store_scenario ''ProductDrafts'')"
    by (simp add: store_scenario_rows)
  have f: "getProductDraft store_scenario (JStr ''EPM-1'') = JObj draft_EPM1"
    using activate_creates_or_updates [OF d1, of draft_EPM1 "''EPM-1''"] u m i1 by blast
  show ?thesis
    using a b c e len2 u f by (simp add: store_edit_rows)
qed

section \<open>C2: editing a product and activating the draft\<close>

text \<open>
  Claim C2 says that an edit draft that is activated at once gives back the product with
  every property at the value it had. The five properties that only products have are not
  in the draft and keep their values, but the activation derives the category names from
  the category ids again: the product \<^verbatim>\<open>P1\<close> has the sub-category \<^verbatim>\<open>S1\<close> under the name
  \<^verbatim>\<open>Old name\<close>, the sub-category \<^verbatim>\<open>S1\<close> is named \<^verbatim>\<open>Snacks\<close>, and after the edit and the
  activation the product has the name \<^verbatim>\<open>Snacks\<close>.
\<close>

theorem edit_roundtrip_counterexample:
  "getProduct store_product (JStr ''P1'') = JObj product_P1
   \<and> fld product_P1 ''SubCategoryName'' = JStr ''Old name''
   \<and> map (\<lambda>r. fld r ''SubCategoryName'')
        (getEntitySetData
           (snd (mockActivateProduct (snd (mockEditProduct store_product ''P1'')) ''P1''))
           ''Products'')
       = [JStr ''Snacks'']"
proof -
  let ?st1 = "snd (mockEditProduct store_product ''P1'')"
  let ?r = "created_draft store_product ''P1'' False"
  have pid: "fld product_P1 ''Id'' = JStr ''P1''"
    and old: "fld product_P1 ''SubCategoryName'' = JStr ''Old name''"
    and sub: "product_P1 ''SubCategoryId'' = Some (JStr ''S1'')"
    by (simp_all add: product_P1_def fld_def)
  have src: "getProduct store_product (JStr ''P1'') = JObj product_P1"
    by (rule getProduct_first [OF store_product_rows(1) pid])
  have nodraft: "\<forall>x\<in>set (getEntitySetData store_product ''ProductDrafts''). fld x ''Id'' \<noteq> JStr ''P1''"
    by (simp add: store_product_rows)
  from edit_then_activate [OF nodraft]
  obtain p where build: "buildProductFromDraft ?st1 (JObj ?r)
                           = (Inr p, deleteProductDraft ?st1 (JStr ''P1''))"
    and rows: "getEntitySetData (snd (mockActivateProduct ?st1 ''P1'')) ''Products''
               = map (\<lambda>r. if fld r ''Id'' = JStr ''P1'' then jQuery_extend r (JObj p) else r)
                   (getEntitySetData store_product ''Products'')"
    by blast
  have "?r ''SubCategoryId'' = jQuery_extend Map.empty (getProduct store_product (JStr ''P1''))
                                 ''SubCategoryId''"
    by (rule created_draft_other) simp
  then have r_sub: "fld ?r ''SubCategoryId'' = JStr ''S1''"
    by (simp add: src jQuery_extend_def sub fld_def)
  have subs: "getEntitySetData ?st1 ''SubCategories'' = [row_S1]"
    by (simp add: mockEditProduct_def createDraft_sets store_product_rows)
  have "p ''SubCategoryName'' = Some (JStr ''Snacks'')"
    using buildProductFromDraft_names(1) [OF build] getSubCategory_S1 [OF subs]
    by (simp add: r_sub category_rows)
  then have "fld (jQuery_extend product_P1 (JObj p)) ''SubCategoryName'' = JStr ''Snacks''"
    by (simp add: fld_def jQuery_extend_def)
  then show ?thesis
    using src old unfolding rows by (simp add: store_product_rows pid)
qed

text \<open>
  Claim C2 as amended. Let the product \<open>P\<close> be found under an id that no draft has. The edit
  request followed by the activation request for that id does not raise, leaves
  \<^verbatim>\<open>ProductDrafts\<close> as it was and merges the product built from the new draft into the rows of
  \<^verbatim>\<open>Products\<close> with that id. In the row that the lookup then finds, the row of \<open>P\<close>, every
  property has the value it had in \<open>P\<close>, the five properties that only products have
  (\<^verbatim>\<open>HasReviewOfCurrentUser\<close>, \<^verbatim>\<open>RatingCount\<close>, \<^verbatim>\<open>IsFavoriteOfCurrentUser\<close>, \<^verbatim>\<open>StockQuantity\<close>,
  \<^verbatim>\<open>AverageRating\<close>) among them, except \<^verbatim>\<open>SubCategoryName\<close> and \<^verbatim>\<open>MainCategoryName\<close> (derived
  from the category ids), \<^verbatim>\<open>WeightUnit\<close> and \<^verbatim>\<open>DimensionUnit\<close> (converted to the unit code and
  back) and \<^verbatim>\<open>CreatedBy\<close> (stamped on the draft). An edit draft is not a new product, so no
  property is set to zero.
\<close>

theorem edit_activate_preserves_product_fields:
  assumes src: "getProduct st (JStr sId) = JObj P"
    and nodraft: "\<forall>x\<in>set (getEntitySetData st ''ProductDrafts''). fld x ''Id'' \<noteq> JStr sId"
  shows "\<exists>p. buildProductFromDraft (snd (mockEditProduct st sId)) (JObj (created_draft st sId False))
               = (Inr p, deleteProductDraft (snd (mockEditProduct st sId)) (JStr sId))
          \<and> fst (mockActivateProduct (snd (mockEditProduct st sId)) sId)
               = Inr (JObj (jQuery_extend P (JObj p)))
          \<and> getEntitySetData (snd (mockActivateProduct (snd (mockEditProduct st sId)) sId)) ''Products''
               = map (\<lambda>r. if fld r ''Id'' = JStr sId then jQuery_extend r (JObj p) else r)
                   (getEntitySetData st ''Products'')
          \<and> getEntitySetData (snd (mockActivateProduct (snd (mockEditProduct st sId)) sId))
               ''ProductDrafts''
               = getEntitySetData st ''ProductDrafts''
          \<and> (\<forall>k. k \<notin> {''SubCategoryName'', ''MainCategoryName'', ''WeightUnit'',
                        ''DimensionUnit'', ''CreatedBy''}
                 \<longrightarrow> jQuery_extend P (JObj p) k = P k)
          \<and> fld (jQuery_extend P (JObj p)) ''HasReviewOfCurrentUser'' = fld P ''HasReviewOfCurrentUser''
          \<and> fld (jQuery_extend P (JObj p)) ''RatingCount'' = fld P ''RatingCount''
          \<and> fld (jQuery_extend P (JObj p)) ''IsFavoriteOfCurrentUser'' = fld P ''IsFavoriteOfCurrentUser''
          \<and> fld (jQuery_extend P (JObj p)) ''StockQuantity'' = fld P ''StockQuantity''
          \<and> fld (jQuery_extend P (JObj p)) ''AverageRating'' = fld P ''AverageRating''"
proof -
  let ?st1 = "snd (mockEditProduct st sId)"
  let ?st2 = "snd (mockActivateProduct ?st1 sId)"
  let ?r = "created_draft st sId False"
  from edit_then_activate [OF nodraft]
  obtain p where build: "buildProductFromDraft ?st1 (JObj ?r)
                           = (Inr p, deleteProductDraft ?st1 (JStr sId))"
    and resp: "fst (mockActivateProduct ?st1 sId) = Inr (getProduct ?st2 (JStr sId))"
    and rows: "getEntitySetData ?st2 ''Products''
               = map (\<lambda>r. if fld r ''Id'' = JStr sId then jQuery_extend r (JObj p) else r)
                   (getEntitySetData st ''Products'')"
    and drafts: "getEntitySetData ?st2 ''ProductDrafts'' = getEntitySetData st ''ProductDrafts''"
    by blast
  have P_id: "P ''Id'' = Some (JStr sId)"
    using getProduct_JObjD(2) [OF src] by (rule fld_JStr_Some)
  have r_id: "?r ''Id'' = Some (JStr sId)"
    by (simp add: created_draft_Id)
  have p_id: "p ''Id'' = Some (JStr sId)"
    using buildProductFromDraft_Id [OF build] r_id by simp
  have found: "getProduct ?st2 (JStr sId) = JObj (jQuery_extend P (JObj p))"
    by (rule getProduct_after_update [OF src rows p_id])
  have "fld ?r ''IsNewProduct'' = JBool False"
    by (rule fld_Some) (rule created_draft_stamps)
  then have old: "\<not> (fld ?r ''IsNewProduct'' = JUndefined \<or> truthy (fld ?r ''IsNewProduct''))"
    by simp
  have copied: "created_draft st sId False k = jQuery_extend Map.empty (JObj P) k"
    if "k \<notin> {''HasReviewOfCurrentUser'', ''RatingCount'', ''IsFavoriteOfCurrentUser'',
               ''StockQuantity'', ''AverageRating'', ''__metadata'', ''CreatedBy'',
               ''IsNewProduct'', ''IsDirty'', ''Id'', ''ProductId'', ''WeightUnit'',
               ''DimensionUnit'', ''Images''}" for k
    using created_draft_other [OF that, of st sId False] by (simp only: src)
  have kept: "jQuery_extend P (JObj p) k = P k"
    if k: "k \<notin> {''SubCategoryName'', ''MainCategoryName'', ''WeightUnit'',
                  ''DimensionUnit'', ''CreatedBy''}" for k
  proof -
    have "p k = None \<or> p k = P k \<or> p k = jQuery_extend Map.empty (JObj P) k"
    proof (cases "k \<in> {''__metadata'', ''Images'', ''IsNewProduct'', ''ExpiresAt'',
                        ''ProductId'', ''IsDirty''}")
      case True
      then show ?thesis
        using buildProductFromDraft_deleted [OF build] by auto
    next
      case dropped: False
      show ?thesis
      proof (cases "k \<in> {''RatingCount'', ''AverageRating'', ''StockQuantity''}")
        case True
        then show ?thesis
          using buildProductFromDraft_not_new(1-3) [OF build old]
            created_draft_deleted [of st sId False]
          by auto
      next
        case aggregate: False
        show ?thesis
        proof (cases "k \<in> {''HasReviewOfCurrentUser'', ''IsFavoriteOfCurrentUser''}")
          case True
          then have "p k = ?r k"
            by (intro buildProductFromDraft_other [OF build]) auto
          then show ?thesis
            using True created_draft_deleted [of st sId False] by auto
        next
          case user: False
          show ?thesis
          proof (cases "k = ''ImageUrl''")
            case True
            have "?r ''ImageUrl'' = jQuery_extend Map.empty (JObj P) ''ImageUrl''"
              by (rule copied) simp
            then show ?thesis
              using buildProductFromDraft_not_new(4) [OF build old] True by simp
          next
            case image: False
            show ?thesis
            proof (cases "k = ''Id''")
              case True
              then show ?thesis
                using p_id P_id by simp
            next
              case id: False
              have built: "k \<notin> {''__metadata'', ''SubCategoryName'', ''MainCategoryName'',
                  ''Images'', ''IsNewProduct'', ''ExpiresAt'', ''ProductId'', ''IsDirty'',
                  ''WeightUnit'', ''DimensionUnit'', ''RatingCount'', ''AverageRating'',
                  ''StockQuantity'', ''ImageUrl''}"
                using k dropped aggregate image by simp
              have drafted: "k \<notin> {''HasReviewOfCurrentUser'', ''RatingCount'',
                  ''IsFavoriteOfCurrentUser'', ''StockQuantity'', ''AverageRating'',
                  ''__metadata'', ''CreatedBy'', ''IsNewProduct'', ''IsDirty'', ''Id'',
                  ''ProductId'', ''WeightUnit'', ''DimensionUnit'', ''Images''}"
                using k dropped aggregate user id by simp
              have "p k = ?r k"
                by (rule buildProductFromDraft_other [OF build built])
              then show ?thesis
                using copied [OF drafted] by simp
            qed
          qed
        qed
      qed
    qed
    then show ?thesis
      by (rule jQuery_extend_keeps)
  qed
  have five: "fld (jQuery_extend P (JObj p)) ''HasReviewOfCurrentUser'' = fld P ''HasReviewOfCurrentUser''"
    "fld (jQuery_extend P (JObj p)) ''RatingCount'' = fld P ''RatingCount''"
    "fld (jQuery_extend P (JObj p)) ''IsFavoriteOfCurrentUser'' = fld P ''IsFavoriteOfCurrentUser''"
    "fld (jQuery_extend P (JObj p)) ''StockQuantity'' = fld P ''StockQuantity''"
    "fld (jQuery_extend P (JObj p)) ''AverageRating'' = fld P ''AverageRating''"
    by (rule fld_cong, rule kept, simp)+
  have all: "\<forall>k. k \<notin> {''SubCategoryName'', ''MainCategoryName'', ''WeightUnit'',
                        ''DimensionUnit'', ''CreatedBy''}
                 \<longrightarrow> jQuery_extend P (JObj p) k = P k"
    using kept by blast
  show ?thesis
    using build rows drafts all five resp unfolding found by blast
qed

text \<open>
  The product \<^verbatim>\<open>P1\<close>, with five ratings and seven in stock: after the edit and the activation
  its row still has five ratings, seven in stock and the name \<^verbatim>\<open>Chips\<close>, and no draft is left.
\<close>

theorem edit_activate_preserves_product_fields_witness:
  "map (\<lambda>r. (fld r ''RatingCount'', fld r ''StockQuantity'', fld r ''Name'', fld r ''Id''))
      (getEntitySetData
         (snd (mockActivateProduct (snd (mockEditProduct store_product ''P1'')) ''P1''))
         ''Products'')
     = [(JNum 5, JNum 7, JStr ''Chips'', JStr ''P1'')]
   \<and> getEntitySetData
        (snd (mockActivateProduct (snd (mockEditProduct store_product ''P1'')) ''P1''))
        ''ProductDrafts'' = []"
proof -
  have pid: "fld product_P1 ''Id'' = JStr ''P1''"
    and vals: "product_P1 ''RatingCount'' = Some (JNum 5)" "product_P1 ''StockQuantity'' = Some (JNum 7)"
      "product_P1 ''Name'' = Some (JStr ''Chips'')" "product_P1 ''Id'' = Some (JStr ''P1'')"
    by (simp_all add: product_P1_def fld_def)
  have src: "getProduct store_product (JStr ''P1'') = JObj product_P1"
    by (rule getProduct_first [OF store_product_rows(1) pid])
  have nodraft: "\<forall>x\<in>set (getEntitySetData store_product ''ProductDrafts''). fld x ''Id'' \<noteq> JStr ''P1''"
    by (simp add: store_product_rows)
  from edit_activate_preserves_product_fields [OF src nodraft]
  obtain p where rows: "getEntitySetData
         (snd (mockActivateProduct (snd (mockEditProduct store_product ''P1'')) ''P1''))
         ''Products''
       = map (\<lambda>r. if fld r ''Id'' = JStr ''P1'' then jQuery_extend r (JObj p) else r)
           (getEntitySetData store_product ''Products'')"
    and drafts: "getEntitySetData
        (snd (mockActivateProduct (snd (mockEditProduct store_product ''P1'')) ''P1''))
        ''ProductDrafts'' = getEntitySetData store_product ''ProductDrafts''"
    and kept: "\<forall>k. k \<notin> {''SubCategoryName'', ''MainCategoryName'', ''WeightUnit'',
                        ''DimensionUnit'', ''CreatedBy''}
                 \<longrightarrow> jQuery_extend product_P1 (JObj p) k = product_P1 k"
    by blast
  have "jQuery_extend product_P1 (JObj p) ''RatingCount'' = Some (JNum 5)"
    "jQuery_extend product_P1 (JObj p) ''StockQuantity'' = Some (JNum 7)"
    "jQuery_extend product_P1 (JObj p) ''Name'' = Some (JStr ''Chips'')"
    "jQuery_extend product_P1 (JObj p) ''Id'' = Some (JStr ''P1'')"
    using kept vals by simp_all
  then have "fld (jQuery_extend product_P1 (JObj p)) ''RatingCount'' = JNum 5"
    "fld (jQuery_extend product_P1 (JObj p)) ''StockQuantity'' = JNum 7"
    "fld (jQuery_extend product_P1 (JObj p)) ''Name'' = JStr ''Chips''"
    "fld (jQuery_extend product_P1 (JObj p)) ''Id'' = JStr ''P1''"
    by (simp_all add: fld_Some)
  then show ?thesis
    unfolding rows drafts by (simp add: store_product_rows pid)
qed

section \<open>C3: the defaults of a draft created with "Add"\<close>

text \<open>
  Claim C3. A draft that the generic creation of \<^verbatim>\<open>ProductDrafts\<close> made without a product
  id (\<^verbatim>\<open>ProductId\<close> absent or the empty string) holds the configured defaults after the
  defaulting step: \<^verbatim>\<open>CurrencyCode = "EUR"\<close>, \<^verbatim>\<open>DimensionUnit = "MTR"\<close>, \<^verbatim>\<open>IsDirty = false\<close>,
  \<^verbatim>\<open>IsNewProduct = true\<close>, \<^verbatim>\<open>QuantityUnit = "EA"\<close>, \<^verbatim>\<open>MeasureUnit = "each"\<close>,
  \<^verbatim>\<open>WeightUnit = "KGM"\<close>. The step is the hook \<^verbatim>\<open>onAfterDraftCreated\<close> on the new entity,
  or, on the older mock server, the add request, which merges the defaults into every stored
  draft with the id of the draft in the response. Both leave every other property alone.
\<close>

theorem defaults_added_without_ProductId:
  assumes "fld e ''ProductId'' = JUndefined \<or> fld e ''ProductId'' = JStr []"
  shows "fld (onAfterDraftCreated e) ''CurrencyCode'' = JStr ''EUR''
     \<and> fld (onAfterDraftCreated e) ''DimensionUnit'' = JStr ''MTR''
     \<and> fld (onAfterDraftCreated e) ''IsDirty'' = JBool False
     \<and> fld (onAfterDraftCreated e) ''IsNewProduct'' = JBool True
     \<and> fld (onAfterDraftCreated e) ''QuantityUnit'' = JStr ''EA''
     \<and> fld (onAfterDraftCreated e) ''MeasureUnit'' = JStr ''each''
     \<and> fld (onAfterDraftCreated e) ''WeightUnit'' = JStr ''KGM''
     \<and> (\<forall>k v. oNewDraftDefaultValues k = Some v \<longrightarrow> onAfterDraftCreated e k = Some v)
     \<and> (\<forall>k. oNewDraftDefaultValues k = None \<longrightarrow> onAfterDraftCreated e k = e k)
     \<and> fst (mockAddProduct st (JObj e)) = Inr ()
     \<and> getEntitySetData (snd (mockAddProduct st (JObj e))) ''ProductDrafts''
          = map (\<lambda>r. if strict_eq (fld r ''Id'') (fld e ''Id'')
                      then jQuery_extend r (JObj oNewDraftDefaultValues) else r)
              (getEntitySetData st ''ProductDrafts'')
     \<and> (\<forall>r\<in>set (getEntitySetData (snd (mockAddProduct st (JObj e))) ''ProductDrafts'').
           strict_eq (fld r ''Id'') (fld e ''Id'') \<longrightarrow>
             fld r ''CurrencyCode'' = JStr ''EUR''
           \<and> fld r ''DimensionUnit'' = JStr ''MTR''
           \<and> fld r ''IsDirty'' = JBool False
           \<and> fld r ''IsNewProduct'' = JBool True
           \<and> fld r ''QuantityUnit'' = JStr ''EA''
           \<and> fld r ''MeasureUnit'' = JStr ''each''
           \<and> fld r ''WeightUnit'' = JStr ''KGM'')"
proof -
  have falsy: "\<not> truthy (fld e ''ProductId'')"
    using assms by auto
  have hook: "onAfterDraftCreated e = jQuery_extend e (JObj oNewDraftDefaultValues)"
    using falsy by (simp add: onAfterDraftCreated_def)
  have vals: "fld (jQuery_extend r (JObj oNewDraftDefaultValues)) ''CurrencyCode'' = JStr ''EUR''
     \<and> fld (jQuery_extend r (JObj oNewDraftDefaultValues)) ''DimensionUnit'' = JStr ''MTR''
     \<and> fld (jQuery_extend r (JObj oNewDraftDefaultValues)) ''IsDirty'' = JBool False
     \<and> fld (jQuery_extend r (JObj oNewDraftDefaultValues)) ''IsNewProduct'' = JBool True
     \<and> fld (jQuery_extend r (JObj oNewDraftDefaultValues)) ''QuantityUnit'' = JStr ''EA''
     \<and> fld (jQuery_extend r (JObj oNewDraftDefaultValues)) ''MeasureUnit'' = JStr ''each''
     \<and> fld (jQuery_extend r (JObj oNewDraftDefaultValues)) ''WeightUnit'' = JStr ''KGM''" for r
    by (simp add: extend_defaults_fld)
  have tbl: "\<forall>k v. oNewDraftDefaultValues k = Some v \<longrightarrow> onAfterDraftCreated e k = Some v"
    unfolding hook by (simp add: extend_defaults_Some)
  have frame: "\<forall>k. oNewDraftDefaultValues k = None \<longrightarrow> onAfterDraftCreated e k = e k"
    unfolding hook by (simp add: jQuery_extend_def)
  have req: "mockAddProduct st (JObj e)
      = (Inr (), updateProductDraft st (fld e ''Id'') (JObj oNewDraftDefaultValues))"
    using falsy by (simp add: mockAddProduct_def)
  have rows: "getEntitySetData (snd (mockAddProduct st (JObj e))) ''ProductDrafts''
          = map (\<lambda>r. if strict_eq (fld r ''Id'') (fld e ''Id'')
                      then jQuery_extend r (JObj oNewDraftDefaultValues) else r)
              (getEntitySetData st ''ProductDrafts'')"
    unfolding req by (simp add: updateProductDraft_def updateEntity_rows)
  have Id_kept: "fld (jQuery_extend r (JObj oNewDraftDefaultValues)) ''Id'' = fld r ''Id''" for r
    by (simp add: fld_def jQuery_extend_def oNewDraftDefaultValues_def)
  have stored: "\<forall>r\<in>set (getEntitySetData (snd (mockAddProduct st (JObj e))) ''ProductDrafts'').
           strict_eq (fld r ''Id'') (fld e ''Id'') \<longrightarrow>
             fld r ''CurrencyCode'' = JStr ''EUR''
           \<and> fld r ''DimensionUnit'' = JStr ''MTR''
           \<and> fld r ''IsDirty'' = JBool False
           \<and> fld r ''IsNewProduct'' = JBool True
           \<and> fld r ''QuantityUnit'' = JStr ''EA''
           \<and> fld r ''MeasureUnit'' = JStr ''each''
           \<and> fld r ''WeightUnit'' = JStr ''KGM''"
  proof (intro ballI impI)
    fix r
    assume r: "r \<in> set (getEntitySetData (snd (mockAddProduct st (JObj e))) ''ProductDrafts'')"
      and eq: "strict_eq (fld r ''Id'') (fld e ''Id'')"
    from r obtain r0 where r0: "r0 \<in> set (getEntitySetData st ''ProductDrafts'')"
      and r_def: "r = (if strict_eq (fld r0 ''Id'') (fld e ''Id'')
                       then jQuery_extend r0 (JObj oNewDraftDefaultValues) else r0)"
      unfolding rows by auto
    have "strict_eq (fld r0 ''Id'') (fld e ''Id'')"
      using eq r_def Id_kept [of r0] by (auto split: if_splits)
    then have "r = jQuery_extend r0 (JObj oNewDraftDefaultValues)"
      using r_def by simp
    then show "fld r ''CurrencyCode'' = JStr ''EUR''
           \<and> fld r ''DimensionUnit'' = JStr ''MTR''
           \<and> fld r ''IsDirty'' = JBool False
           \<and> fld r ''IsNewProduct'' = JBool True
           \<and> fld r ''QuantityUnit'' = JStr ''EA''
           \<and> fld r ''MeasureUnit'' = JStr ''each''
           \<and> fld r ''WeightUnit'' = JStr ''KGM''"
      using vals [of r0] by simp
  qed
  show ?thesis
    using vals [of e] tbl frame rows stored unfolding hook [symmetric] req
    by (simp only: fst_conv snd_conv simp_thms)
qed

text \<open>
  A draft made by "Add" with a name only, stored under the id \<^verbatim>\<open>D1\<close>: the hook and the add
  request both give it the defaults.
\<close>

theorem defaults_added_without_ProductId_witness:
  "fld (onAfterDraftCreated draft_added) ''CurrencyCode'' = JStr ''EUR''
   \<and> fld (onAfterDraftCreated draft_added) ''IsNewProduct'' = JBool True
   \<and> fld (onAfterDraftCreated draft_added) ''WeightUnit'' = JStr ''KGM''
   \<and> fld (onAfterDraftCreated draft_added) ''Name'' = JStr ''Crisps''
   \<and> fst (mockAddProduct store_added (JObj draft_added)) = Inr ()
   \<and> map (\<lambda>r. fld r ''MeasureUnit'')
        (getEntitySetData (snd (mockAddProduct store_added (JObj draft_added))) ''ProductDrafts'')
       = [JStr ''each'']"
proof -
  have h: "fld draft_added ''ProductId'' = JUndefined \<or> fld draft_added ''ProductId'' = JStr []"
    by (simp add: draft_added_def fld_def)
  have rows: "getEntitySetData store_added ''ProductDrafts'' = [draft_added]"
    by (simp add: store_added_def getEntitySetData_def)
  have id: "strict_eq (fld draft_added ''Id'') (fld draft_added ''Id'')"
    by (simp add: draft_added_def fld_def strict_eq_def)
  have name: "oNewDraftDefaultValues ''Name'' = None"
    by (simp add: oNewDraftDefaultValues_def)
  have dn: "draft_added ''Name'' = Some (JStr ''Crisps'')"
    by (simp add: draft_added_def)
  have m: "fld (jQuery_extend draft_added (JObj oNewDraftDefaultValues)) ''MeasureUnit'' = JStr ''each''"
    by (simp add: extend_defaults_fld)
  show ?thesis
    using defaults_added_without_ProductId [OF h, of store_added] rows id name dn m
    by (simp add: fld_def)
qed

section \<open>C4: unit code to text and back\<close>

text \<open>
  Claim C4 says that for every entry of \<^verbatim>\<open>WeightUnits\<close> and of \<^verbatim>\<open>DimensionUnits\<close> the text
  of the entry's unit code (\<^verbatim>\<open>_getWeightText\<close>, \<^verbatim>\<open>_getDimensionText\<close>) converts back
  (\<^verbatim>\<open>_getWeightUnit\<close>, \<^verbatim>\<open>_getDimensionUnit\<close>) to that code. Both directions take the first
  entry that matches, so the claim fails on a table in which two unit codes share a text:
  with the entries \<^verbatim>\<open>{Unit: "KGM", Shorttext: "kg"}\<close> and \<^verbatim>\<open>{Unit: "KG", Shorttext: "kg"}\<close>,
  in this order, the code \<^verbatim>\<open>KG\<close> of the second entry has the text \<^verbatim>\<open>kg\<close>, and \<^verbatim>\<open>kg\<close>
  converts back to \<^verbatim>\<open>KGM\<close>.
\<close>

theorem unit_roundtrip_counterexample:
  "fld (getEntitySetData store_units_shared_text ''WeightUnits'' ! 1) ''Unit'' = JStr ''KG''
   \<and> getWeightUnit store_units_shared_text
        (getWeightText store_units_shared_text
           (fld (getEntitySetData store_units_shared_text ''WeightUnits'' ! 1) ''Unit''))
       = JStr ''KGM''"
  by (simp add: store_units_shared_text_def getEntitySetData_def getWeightUnit_def
      getWeightText_def getFirstFoundEntity_def key_name_def unit_KG_def unit_KGM_def
      fld_def strict_eq_def)

text \<open>
  Claim C4 as amended. In a table of primitive unit codes and texts in which entries with
  the same text have the same unit code, the text of the unit code of every entry converts
  back to that unit code; this holds for \<^verbatim>\<open>WeightUnits\<close> and for \<^verbatim>\<open>DimensionUnits\<close>.
\<close>

theorem unit_text_unit_roundtrip:
  "((\<forall>a\<in>set (getEntitySetData st ''WeightUnits'').
        is_prim (fld a ''Unit'') \<and> is_prim (fld a ''Shorttext''))
    \<and> (\<forall>a\<in>set (getEntitySetData st ''WeightUnits'').
        \<forall>b\<in>set (getEntitySetData st ''WeightUnits'').
          fld a ''Shorttext'' = fld b ''Shorttext'' \<longrightarrow> fld a ''Unit'' = fld b ''Unit'')
    \<and> e \<in> set (getEntitySetData st ''WeightUnits'')
    \<longrightarrow> getWeightUnit st (getWeightText st (fld e ''Unit'')) = fld e ''Unit'')
   \<and> ((\<forall>a\<in>set (getEntitySetData st ''DimensionUnits'').
        is_prim (fld a ''Unit'') \<and> is_prim (fld a ''Shorttext''))
    \<and> (\<forall>a\<in>set (getEntitySetData st ''DimensionUnits'').
        \<forall>b\<in>set (getEntitySetData st ''DimensionUnits'').
          fld a ''Shorttext'' = fld b ''Shorttext'' \<longrightarrow> fld a ''Unit'' = fld b ''Unit'')
    \<and> e \<in> set (getEntitySetData st ''DimensionUnits'')
    \<longrightarrow> getDimensionUnit st (getDimensionText st (fld e ''Unit'')) = fld e ''Unit'')"
  unfolding getWeightUnit_def getWeightText_def getDimensionUnit_def getDimensionText_def
  using unit_roundtrip_table [of st "''WeightUnits''" e]
    unit_roundtrip_table [of st "''DimensionUnits''" e]
  by blast

text \<open>The table of the specification's scenario: \<^verbatim>\<open>KG\<close> has the text \<^verbatim>\<open>kg\<close> and comes back.\<close>

theorem unit_text_unit_roundtrip_witness:
  "getWeightText store_units (JStr ''KG'') = JStr ''kg''
   \<and> getWeightUnit store_units (getWeightText store_units (JStr ''KG'')) = JStr ''KG''
   \<and> getDimensionUnit store_units (getDimensionText store_units (JStr ''KG'')) = JStr ''KG''"
proof -
  have w: "getEntitySetData store_units ''WeightUnits'' = [unit_KG]"
    and d: "getEntitySetData store_units ''DimensionUnits'' = [unit_KG]"
    by (simp_all add: store_units_def getEntitySetData_def)
  have u: "fld unit_KG ''Unit'' = JStr ''KG''" and t: "fld unit_KG ''Shorttext'' = JStr ''kg''"
    by (simp_all add: unit_KG_def fld_def)
  have kg: "getWeightText store_units (JStr ''KG'') = JStr ''kg''"
    by (simp add: getWeightText_def getFirstFoundEntity_def w key_name_def u t strict_eq_def)
  show ?thesis
    using unit_text_unit_roundtrip [of store_units unit_KG] kg
    by (simp add: w d u t)
qed

section \<open>C5: the ids of copy drafts and edit drafts\<close>

text \<open>
  Claim C5 says that in every state of \<^verbatim>\<open>Products\<close> and \<^verbatim>\<open>ProductDrafts\<close> the copy flow gives
  the new draft an id different from the id of every draft and product there is. The id is
  \<^verbatim>\<open>"EPM-"\<close> and the incremented counter, and nothing compares it with the ids in the store:
  with the counter at \<open>0\<close> and a product \<^verbatim>\<open>EPM-1\<close> in the store, the copy of that product is a
  draft with the id \<^verbatim>\<open>EPM-1\<close> again.
\<close>

theorem copy_id_collision_counterexample:
  "iLastId store_counter_reset = 0
   \<and> map (\<lambda>r. fld r ''Id'') (getEntitySetData store_counter_reset ''Products'') = [JStr ''EPM-1'']
   \<and> map (\<lambda>r. fld r ''Id'')
        (getEntitySetData (snd (mockCopyProduct store_counter_reset ''EPM-1'')) ''ProductDrafts'')
       = [JStr ''EPM-1'']"
proof -
  have rows: "getEntitySetData store_counter_reset ''Products'' = [product_EPM1]"
    "getEntitySetData store_counter_reset ''ProductDrafts'' = []"
    and cnt: "iLastId store_counter_reset = 0"
    by (simp_all add: store_counter_reset_def getEntitySetData_def)
  have "fld (created_draft store_counter_reset ''EPM-1'' True) ''Id'' = JStr ''EPM-1''"
    by (rule fld_Some) (simp add: created_draft_Id cnt string_of_nat_1)
  then show ?thesis
    by (simp add: mockCopyProduct_def createDraft_sets rows cnt product_EPM1_def fld_def)
qed

text \<open>
  Claim C5 as amended. The copy flow appends one draft whose id is \<^verbatim>\<open>"EPM-"\<close> and the
  incremented counter. In a state in which every id of that form held by a product or a
  draft has a number that the counter has reached (the ids of that form all came from the
  counter), the new id differs from the id of every product and draft there is, and the
  state after the copy is of that kind again. The edit flow appends one draft whose
  \<^verbatim>\<open>Id\<close> and \<^verbatim>\<open>ProductId\<close> are the product id of the request, which is the \<^verbatim>\<open>Id\<close> of the
  source product when there is one, and leaves the counter alone.
\<close>

theorem copy_id_from_counter_edit_id_reused:
  "getEntitySetData (snd (mockCopyProduct st s)) ''ProductDrafts''
     = getEntitySetData st ''ProductDrafts'' @ [created_draft st s True]
   \<and> fld (created_draft st s True) ''Id'' = JStr (''EPM-'' @ string_of_nat (iLastId st + 1))
   \<and> iLastId (snd (mockCopyProduct st s)) = iLastId st + 1
   \<and> ((\<forall>x\<in>set (getEntitySetData st ''Products'') \<union> set (getEntitySetData st ''ProductDrafts'').
          \<forall>k. fld x ''Id'' = JStr (''EPM-'' @ string_of_nat k) \<longrightarrow> k \<le> iLastId st)
        \<longrightarrow> (\<forall>x\<in>set (getEntitySetData st ''Products'') \<union> set (getEntitySetData st ''ProductDrafts'').
               fld x ''Id'' \<noteq> fld (created_draft st s True) ''Id'')
          \<and> (\<forall>x\<in>set (getEntitySetData (snd (mockCopyProduct st s)) ''Products'')
                  \<union> set (getEntitySetData (snd (mockCopyProduct st s)) ''ProductDrafts'').
               \<forall>k. fld x ''Id'' = JStr (''EPM-'' @ string_of_nat k)
                    \<longrightarrow> k \<le> iLastId (snd (mockCopyProduct st s))))
   \<and> getEntitySetData (snd (mockEditProduct st s)) ''ProductDrafts''
       = getEntitySetData st ''ProductDrafts'' @ [created_draft st s False]
   \<and> fld (created_draft st s False) ''Id'' = JStr s
   \<and> fld (created_draft st s False) ''ProductId'' = JStr s
   \<and> (getProduct st (JStr s) = JObj P \<longrightarrow>
         fld (created_draft st s False) ''Id'' = fld P ''Id''
       \<and> fld (created_draft st s False) ''ProductId'' = fld P ''Id'')
   \<and> iLastId (snd (mockEditProduct st s)) = iLastId st"
proof -
  let ?new = "JStr (''EPM-'' @ string_of_nat (iLastId st + 1))"
  let ?old = "set (getEntitySetData st ''Products'') \<union> set (getEntitySetData st ''ProductDrafts'')"
  have copy_rows: "getEntitySetData (snd (mockCopyProduct st s)) ''ProductDrafts''
     = getEntitySetData st ''ProductDrafts'' @ [created_draft st s True]"
    and copy_products: "getEntitySetData (snd (mockCopyProduct st s)) ''Products''
     = getEntitySetData st ''Products''"
    by (simp_all add: mockCopyProduct_def createDraft_sets)
  have copy_id: "fld (created_draft st s True) ''Id'' = ?new"
    by (rule fld_Some) (simp add: created_draft_Id)
  have copy_cnt: "iLastId (snd (mockCopyProduct st s)) = iLastId st + 1"
    by (simp add: mockCopyProduct_def createDraft_iLastId)
  have fresh: "\<forall>x\<in>?old. fld x ''Id'' \<noteq> fld (created_draft st s True) ''Id''"
    if inv: "\<forall>x\<in>?old. \<forall>k. fld x ''Id'' = JStr (''EPM-'' @ string_of_nat k) \<longrightarrow> k \<le> iLastId st"
  proof
    fix x assume x: "x \<in> ?old"
    show "fld x ''Id'' \<noteq> fld (created_draft st s True) ''Id''"
    proof
      assume "fld x ''Id'' = fld (created_draft st s True) ''Id''"
      then have "fld x ''Id'' = JStr (''EPM-'' @ string_of_nat (iLastId st + 1))"
        by (simp only: copy_id)
      then have "iLastId st + 1 \<le> iLastId st"
        using inv x by blast
      then show False by simp
    qed
  qed
  have kept: "\<forall>x\<in>set (getEntitySetData (snd (mockCopyProduct st s)) ''Products'')
                  \<union> set (getEntitySetData (snd (mockCopyProduct st s)) ''ProductDrafts'').
               \<forall>k. fld x ''Id'' = JStr (''EPM-'' @ string_of_nat k)
                    \<longrightarrow> k \<le> iLastId (snd (mockCopyProduct st s))"
    if inv: "\<forall>x\<in>?old. \<forall>k. fld x ''Id'' = JStr (''EPM-'' @ string_of_nat k) \<longrightarrow> k \<le> iLastId st"
  proof (intro ballI allI impI)
    fix x k
    assume x: "x \<in> set (getEntitySetData (snd (mockCopyProduct st s)) ''Products'')
                  \<union> set (getEntitySetData (snd (mockCopyProduct st s)) ''ProductDrafts'')"
      and k: "fld x ''Id'' = JStr (''EPM-'' @ string_of_nat k)"
    from x consider "x \<in> ?old" | "x = created_draft st s True"
      unfolding copy_rows copy_products by auto
    then show "k \<le> iLastId (snd (mockCopyProduct st s))"
    proof cases
      case 1
      then have "k \<le> iLastId st" using inv k by blast
      then show ?thesis by (simp add: copy_cnt)
    next
      case 2
      then have "string_of_nat k = string_of_nat (iLastId st + 1)"
        using k copy_id by simp
      then have "k = iLastId st + 1" by (rule string_of_nat_inj)
      then show ?thesis by (simp add: copy_cnt)
    qed
  qed
  have edit_rows: "getEntitySetData (snd (mockEditProduct st s)) ''ProductDrafts''
       = getEntitySetData st ''ProductDrafts'' @ [created_draft st s False]"
    by (simp add: mockEditProduct_def createDraft_sets)
  have edit_id: "fld (created_draft st s False) ''Id'' = JStr s"
    "fld (created_draft st s False) ''ProductId'' = JStr s"
    by (rule fld_Some, simp add: created_draft_Id)+
  have edit_src: "getProduct st (JStr s) = JObj P \<longrightarrow>
         fld (created_draft st s False) ''Id'' = fld P ''Id''
       \<and> fld (created_draft st s False) ''ProductId'' = fld P ''Id''"
    using edit_id getProduct_JObjD(2) [of st s P] by simp
  have edit_cnt: "iLastId (snd (mockEditProduct st s)) = iLastId st"
    by (simp add: mockEditProduct_def createDraft_iLastId)
  show ?thesis
    using copy_rows copy_id copy_cnt fresh kept edit_rows edit_id edit_src edit_cnt
    by blast
qed

text \<open>
  The store with the product \<^verbatim>\<open>P1\<close> and the counter at \<open>0\<close> holds no id of the form
  \<^verbatim>\<open>"EPM-"\<close> and a number: the copy of \<^verbatim>\<open>P1\<close> is the draft \<^verbatim>\<open>EPM-1\<close>, which is not \<^verbatim>\<open>P1\<close>, and the
  edit of \<^verbatim>\<open>P1\<close> is the draft \<^verbatim>\<open>P1\<close>.
\<close>

theorem copy_id_from_counter_edit_id_reused_witness:
  "fld (created_draft store_product ''P1'' True) ''Id'' = JStr ''EPM-1''
   \<and> fld product_P1 ''Id'' \<noteq> fld (created_draft store_product ''P1'' True) ''Id''
   \<and> iLastId (snd (mockCopyProduct store_product ''P1'')) = 1
   \<and> fld (created_draft store_product ''P1'' False) ''Id'' = fld product_P1 ''Id''
   \<and> fld (created_draft store_product ''P1'' False) ''ProductId'' = JStr ''P1''"
proof -
  have cnt: "iLastId store_product = 0"
    by (simp add: store_product_def)
  have pid: "fld product_P1 ''Id'' = JStr ''P1''"
    by (simp add: product_P1_def fld_def)
  have src: "getProduct store_product (JStr ''P1'') = JObj product_P1"
    by (rule getProduct_first [OF store_product_rows(1) pid])
  have inv: "\<forall>x\<in>set (getEntitySetData store_product ''Products'')
                 \<union> set (getEntitySetData store_product ''ProductDrafts'').
          \<forall>k. fld x ''Id'' = JStr (''EPM-'' @ string_of_nat k) \<longrightarrow> k \<le> iLastId store_product"
    by (simp add: store_product_rows pid)
  show ?thesis
    using copy_id_from_counter_edit_id_reused [of store_product "''P1''" product_P1] inv src
    by (simp add: store_product_rows cnt string_of_nat_1 pid)
qed

section \<open>C6: one draft row per id\<close>

text \<open>
  Claim C6 says that the requests keep the invariant that \<^verbatim>\<open>ProductDrafts\<close> has at most one
  row per \<^verbatim>\<open>Id\<close>, and that the activation deletes the draft in the same invocation. The edit
  request appends a draft with the product's id and does not look for a draft that has it:
  from the store with the product \<^verbatim>\<open>P1\<close> and no draft, which has the invariant, two edit
  requests for \<^verbatim>\<open>P1\<close> reach a store with two drafts \<^verbatim>\<open>P1\<close>.
\<close>

theorem edit_twice_counterexample:
  "drafts_unique store_product
   \<and> map (\<lambda>d. fld d ''Id'')
        (getEntitySetData (snd (mockEditProduct (snd (mockEditProduct store_product ''P1'')) ''P1''))
           ''ProductDrafts'')
       = [JStr ''P1'', JStr ''P1'']
   \<and> \<not> drafts_unique (snd (mockEditProduct (snd (mockEditProduct store_product ''P1'')) ''P1''))"
proof -
  have id: "fld (created_draft st ''P1'' False) ''Id'' = JStr ''P1''" for st
    by (rule fld_Some) (simp add: created_draft_Id)
  have ids: "map (\<lambda>d. fld d ''Id'')
        (getEntitySetData (snd (mockEditProduct (snd (mockEditProduct store_product ''P1'')) ''P1''))
           ''ProductDrafts'')
       = [JStr ''P1'', JStr ''P1'']"
    by (simp add: mockEditProduct_def createDraft_sets store_product_rows id)
  show ?thesis
    unfolding drafts_unique_def ids by (simp add: store_product_rows)
qed

text \<open>
  Claim C6 as amended. From a state in which \<^verbatim>\<open>ProductDrafts\<close> has at most one row per \<^verbatim>\<open>Id\<close>,
  the activation request and the add request reach such a state again; the edit request
  does when no draft has the product id of the request, and the copy request does when no
  draft has the id that the counter gives next. After the activation request, whether it
  raised or not, no draft with the draft id of the request is in \<^verbatim>\<open>ProductDrafts\<close>: the
  deletion is part of the one step from the store before the request to the store after it.
\<close>

theorem drafts_unique_preserved:
  assumes "drafts_unique st"
  shows "drafts_unique (snd (mockActivateProduct st sId))
     \<and> drafts_unique (snd (mockAddProduct st oDraft))
     \<and> ((\<forall>x\<in>set (getEntitySetData st ''ProductDrafts''). fld x ''Id'' \<noteq> JStr s)
          \<longrightarrow> drafts_unique (snd (mockEditProduct st s)))
     \<and> ((\<forall>x\<in>set (getEntitySetData st ''ProductDrafts'').
            fld x ''Id'' \<noteq> JStr (''EPM-'' @ string_of_nat (iLastId st + 1)))
          \<longrightarrow> drafts_unique (snd (mockCopyProduct st s)))
     \<and> (\<forall>x\<in>set (getEntitySetData (snd (mockActivateProduct st sId)) ''ProductDrafts'').
           fld x ''Id'' \<noteq> JStr sId)"
proof -
  have d: "distinct (map (\<lambda>d. fld d ''Id'') (getEntitySetData st ''ProductDrafts''))"
    using assms by (simp add: drafts_unique_def)
  have act: "drafts_unique (snd (mockActivateProduct st sId))"
  proof -
    obtain v where "getEntitySetData (snd (mockActivateProduct st sId)) ''ProductDrafts''
         = filter (\<lambda>r. \<not> strict_eq (fld r ''Id'') v) (getEntitySetData st ''ProductDrafts'')"
      using mockActivateProduct_drafts by blast
    then show ?thesis
      using d by (simp add: drafts_unique_def distinct_map_filter)
  qed
  have add: "drafts_unique (snd (mockAddProduct st oDraft))"
    using d by (simp add: drafts_unique_def mockAddProduct_draft_ids)
  have created: "drafts_unique (snd (createDraft st s b))"
    if "\<forall>x\<in>set (getEntitySetData st ''ProductDrafts''). fld x ''Id'' \<noteq> new_draft_id st s b" for b
  proof -
    have "fld (created_draft st s b) ''Id'' = new_draft_id st s b"
      by (rule fld_Some) (rule created_draft_Id)
    then show ?thesis
      using d that by (auto simp: drafts_unique_def createDraft_sets)
  qed
  have edit: "(\<forall>x\<in>set (getEntitySetData st ''ProductDrafts''). fld x ''Id'' \<noteq> JStr s)
          \<longrightarrow> drafts_unique (snd (mockEditProduct st s))"
    using created [of False] by (simp add: mockEditProduct_def)
  have copy: "(\<forall>x\<in>set (getEntitySetData st ''ProductDrafts'').
            fld x ''Id'' \<noteq> JStr (''EPM-'' @ string_of_nat (iLastId st + 1)))
          \<longrightarrow> drafts_unique (snd (mockCopyProduct st s))"
    using created [of True] by (simp add: mockCopyProduct_def)
  show ?thesis
    using act add edit copy mockActivateProduct_draft_gone [of st sId] by blast
qed

text \<open>
  The store with the product \<^verbatim>\<open>P1\<close> and its one draft has the invariant; so has the store
  after the activation of that draft, which has no draft left, and the store after a copy of
  \<^verbatim>\<open>P1\<close>, which has the drafts \<^verbatim>\<open>P1\<close> and \<^verbatim>\<open>EPM-1\<close>.
\<close>

theorem drafts_unique_preserved_witness:
  "drafts_unique store_edit
   \<and> drafts_unique (snd (mockActivateProduct store_edit ''P1''))
   \<and> drafts_unique (snd (mockAddProduct store_edit (JObj draft_P1)))
   \<and> drafts_unique (snd (mockEditProduct store_edit ''P2''))
   \<and> drafts_unique (snd (mockCopyProduct store_edit ''P1''))"
proof -
  have u: "drafts_unique store_edit"
    by (simp add: drafts_unique_def store_edit_rows)
  have id: "fld draft_P1 ''Id'' = JStr ''P1''"
    by (simp add: draft_P1_def fld_def)
  have cnt: "iLastId store_edit = 0"
    by (simp add: store_edit_def)
  have e: "\<forall>x\<in>set (getEntitySetData store_edit ''ProductDrafts''). fld x ''Id'' \<noteq> JStr ''P2''"
    by (simp add: store_edit_rows id)
  have c: "\<forall>x\<in>set (getEntitySetData store_edit ''ProductDrafts'').
            fld x ''Id'' \<noteq> JStr (''EPM-'' @ string_of_nat (iLastId store_edit + 1))"
    by (simp add: store_edit_rows id)
  show ?thesis
    using drafts_unique_preserved [OF u, of "''P1''" "JObj draft_P1" "''P2''"] u e
      drafts_unique_preserved [OF u, of "''P1''" "JObj draft_P1" "''P1''"] c
    by blast
qed

section \<open>C7: the activation scenario, category names and zero-initialisation\<close>

text \<open>
  Claim C7 has the scenario of the specification and two rules. The scenario holds, and so
  does the rule that the rating and stock aggregates are set to \<open>0\<close> only for a draft of a
  new product. The rule that the category names are derived from the category ids only when
  the draft has no names does not hold: \<^verbatim>\<open>_buildProductFromDraft\<close> deletes both names from the
  draft before it tests them, so the names are always derived from the ids. The scenario
  draft with the name \<^verbatim>\<open>Stale name\<close> for its sub-category still gives a product with the
  name \<^verbatim>\<open>Snacks\<close>.
\<close>

theorem category_name_kept_counterexample:
  "fld draft_stale ''SubCategoryName'' = JStr ''Stale name''
   \<and> getProductDraft store_stale (JStr ''EPM-1'') = JObj draft_stale
   \<and> map (\<lambda>r. fld r ''SubCategoryName'')
        (getEntitySetData (snd (mockActivateProduct store_stale ''EPM-1'')) ''Products'')
       = [JStr ''Snacks'']"
proof -
  have rows: "getEntitySetData store_stale ''ProductDrafts'' = [draft_stale]"
    "getEntitySetData store_stale ''SubCategories'' = [row_S1]"
    "getEntitySetData store_stale ''MainCategories'' = [row_M1]"
    "getEntitySetData store_stale ''Products'' = []"
    by (simp_all add: store_stale_def getEntitySetData_def)
  have d: "fld draft_stale ''Id'' = JStr ''EPM-1''" "fld draft_stale ''IsNewProduct'' = JBool True"
    "fld draft_stale ''SubCategoryId'' = JStr ''S1''" "fld draft_stale ''MainCategoryId'' = JStr ''M1''"
    "fld draft_stale ''SubCategoryName'' = JStr ''Stale name''"
    by (simp_all add: draft_stale_def fld_def)
  have found: "getProductDraft store_stale (JStr ''EPM-1'') = JObj draft_stale"
    by (rule getProductDraft_first [OF rows(1) d(1)])
  from activate_new_S1_M1 [OF found d(2) d(3) d(4) rows(2) rows(3)]
  have "map (\<lambda>r. fld r ''SubCategoryName'')
        (getEntitySetData (snd (mockActivateProduct store_stale ''EPM-1'')) ''Products'')
       = [JStr ''Snacks'']"
    by (auto simp: rows(4))
  then show ?thesis
    using d(5) found by simp
qed

text \<open>
  Claim C7 as amended. Activating a draft found under the id \<^verbatim>\<open>EPM-1\<close> with
  \<^verbatim>\<open>IsNewProduct: true\<close>, \<^verbatim>\<open>SubCategoryId: "S1"\<close> and \<^verbatim>\<open>MainCategoryId: "M1"\<close> against
  \<^verbatim>\<open>SubCategories = [{Id: "S1", Name: "Snacks"}]\<close> and \<^verbatim>\<open>MainCategories = [{Id: "M1", Name: "Food"}]\<close>
  appends a product with \<^verbatim>\<open>SubCategoryName = "Snacks"\<close>, \<^verbatim>\<open>MainCategoryName = "Food"\<close>,
  \<^verbatim>\<open>RatingCount = 0\<close>, \<^verbatim>\<open>AverageRating = 0\<close> and \<^verbatim>\<open>StockQuantity = 0\<close>. For every draft \<open>d'\<close> and
  store \<open>st'\<close>, the product built has the category names that the lookups by the draft's
  category ids give, whatever names the draft has; the three aggregates are \<open>0\<close> when
  \<^verbatim>\<open>IsNewProduct\<close> of the draft is \<^verbatim>\<open>undefined\<close> or truthy, and are the draft's own otherwise.
\<close>

theorem activate_scenario_names_rederived:
  assumes "getProductDraft st (JStr ''EPM-1'') = JObj d"
    and "fld d ''IsNewProduct'' = JBool True"
    and "fld d ''SubCategoryId'' = JStr ''S1''"
    and "fld d ''MainCategoryId'' = JStr ''M1''"
    and "getEntitySetData st ''SubCategories'' = [row_S1]"
    and "getEntitySetData st ''MainCategories'' = [row_M1]"
  shows "(\<exists>r. getEntitySetData (snd (mockActivateProduct st ''EPM-1'')) ''Products''
               = getEntitySetData st ''Products'' @ [r]
           \<and> fld r ''Id'' = JStr ''EPM-1''
           \<and> fld r ''SubCategoryName'' = JStr ''Snacks''
           \<and> fld r ''MainCategoryName'' = JStr ''Food''
           \<and> fld r ''RatingCount'' = JNum 0
           \<and> fld r ''AverageRating'' = JNum 0
           \<and> fld r ''StockQuantity'' = JNum 0)
     \<and> (\<exists>p. buildProductFromDraft st' (JObj d') = (Inr p, deleteProductDraft st' (fld d' ''Id''))
           \<and> fld p ''SubCategoryName''
                = jsprop (getSubCategory st' (fld d' ''SubCategoryId'')) ''Name''
           \<and> fld p ''MainCategoryName''
                = jsprop (getMainCategory st' (fld d' ''MainCategoryId'')) ''Name''
           \<and> (fld d' ''IsNewProduct'' = JUndefined \<or> truthy (fld d' ''IsNewProduct'') \<longrightarrow>
                 fld p ''RatingCount'' = JNum 0 \<and> fld p ''AverageRating'' = JNum 0
               \<and> fld p ''StockQuantity'' = JNum 0)
           \<and> (\<not> (fld d' ''IsNewProduct'' = JUndefined \<or> truthy (fld d' ''IsNewProduct'')) \<longrightarrow>
                 p ''RatingCount'' = d' ''RatingCount'' \<and> p ''AverageRating'' = d' ''AverageRating''
               \<and> p ''StockQuantity'' = d' ''StockQuantity''))"
proof -
  obtain p st1 where build: "buildProductFromDraft st' (JObj d') = (Inr p, st1)"
    using buildProductFromDraft_state [of st' d'] by (metis surj_pair)
  have st1: "st1 = deleteProductDraft st' (fld d' ''Id'')"
    using buildProductFromDraft_state [OF build] by simp
  have names: "fld p ''SubCategoryName''
                = jsprop (getSubCategory st' (fld d' ''SubCategoryId'')) ''Name''"
    "fld p ''MainCategoryName''
                = jsprop (getMainCategory st' (fld d' ''MainCategoryId'')) ''Name''"
    using buildProductFromDraft_names [OF build] by (simp_all add: fld_Some)
  have zero: "fld d' ''IsNewProduct'' = JUndefined \<or> truthy (fld d' ''IsNewProduct'') \<longrightarrow>
                 fld p ''RatingCount'' = JNum 0 \<and> fld p ''AverageRating'' = JNum 0
               \<and> fld p ''StockQuantity'' = JNum 0"
    using buildProductFromDraft_new(1-3) [OF build] by (simp add: fld_Some)
  have kept: "\<not> (fld d' ''IsNewProduct'' = JUndefined \<or> truthy (fld d' ''IsNewProduct'')) \<longrightarrow>
                 p ''RatingCount'' = d' ''RatingCount'' \<and> p ''AverageRating'' = d' ''AverageRating''
               \<and> p ''StockQuantity'' = d' ''StockQuantity''"
    using buildProductFromDraft_not_new(1-3) [OF build] by blast
  have general: "\<exists>p. buildProductFromDraft st' (JObj d') = (Inr p, deleteProductDraft st' (fld d' ''Id''))
           \<and> fld p ''SubCategoryName''
                = jsprop (getSubCategory st' (fld d' ''SubCategoryId'')) ''Name''
           \<and> fld p ''MainCategoryName''
                = jsprop (getMainCategory st' (fld d' ''MainCategoryId'')) ''Name''
           \<and> (fld d' ''IsNewProduct'' = JUndefined \<or> truthy (fld d' ''IsNewProduct'') \<longrightarrow>
                 fld p ''RatingCount'' = JNum 0 \<and> fld p ''AverageRating'' = JNum 0
               \<and> fld p ''StockQuantity'' = JNum 0)
           \<and> (\<not> (fld d' ''IsNewProduct'' = JUndefined \<or> truthy (fld d' ''IsNewProduct'')) \<longrightarrow>
                 p ''RatingCount'' = d' ''RatingCount'' \<and> p ''AverageRating'' = d' ''AverageRating''
               \<and> p ''StockQuantity'' = d' ''StockQuantity'')"
    using build names zero kept unfolding st1 by blast
  show ?thesis
    using activate_new_S1_M1 [OF assms] general by blast
qed

text \<open>
  The scenario store holds exactly the scenario draft; its product is the only one after the
  activation. The draft of the edited product \<^verbatim>\<open>P1\<close> is not new and has no rating count, and
  neither has the product built from it.
\<close>

theorem activate_scenario_names_rederived_witness:
  "map (\<lambda>r. (fld r ''SubCategoryName'', fld r ''MainCategoryName'', fld r ''RatingCount'',
              fld r ''AverageRating'', fld r ''StockQuantity''))
      (getEntitySetData (snd (mockActivateProduct store_scenario ''EPM-1'')) ''Products'')
     = [(JStr ''Snacks'', JStr ''Food'', JNum 0, JNum 0, JNum 0)]
   \<and> (\<exists>p. buildProductFromDraft store_edit (JObj draft_P1)
             = (Inr p, deleteProductDraft store_edit (JStr ''P1''))
          \<and> fld p ''SubCategoryName'' = JStr ''Snacks''
          \<and> p ''RatingCount'' = None)"
proof -
  have d: "fld draft_EPM1 ''Id'' = JStr ''EPM-1''" "fld draft_EPM1 ''IsNewProduct'' = JBool True"
    "fld draft_EPM1 ''SubCategoryId'' = JStr ''S1''" "fld draft_EPM1 ''MainCategoryId'' = JStr ''M1''"
    by (simp_all add: draft_EPM1_def fld_def)
  have found: "getProductDraft store_scenario (JStr ''EPM-1'') = JObj draft_EPM1"
    by (rule getProductDraft_first [OF store_scenario_rows(1) d(1)])
  have e: "fld draft_P1 ''Id'' = JStr ''P1''" "fld draft_P1 ''IsNewProduct'' = JBool False"
    "fld draft_P1 ''SubCategoryId'' = JStr ''S1''" "draft_P1 ''RatingCount'' = None"
    by (simp_all add: draft_P1_def fld_def)
  have sub: "jsprop (getSubCategory store_edit (JStr ''S1'')) ''Name'' = JStr ''Snacks''"
    using getSubCategory_S1 [OF store_edit_rows(3)] by (simp add: category_rows)
  from activate_scenario_names_rederived
         [OF found d(2) d(3) d(4) store_scenario_rows(2) store_scenario_rows(3),
          of store_edit draft_P1]
  show ?thesis
    by (auto simp: store_scenario_rows(4) e sub)
qed

section \<open>C8: the entity lookup\<close>

text \<open>
  Claim C8. For every entity set, key name and key value, \<^verbatim>\<open>_getFirstFoundEntity\<close> returns
  the first row whose key property is identical to the value when there is one, and the
  boolean \<^verbatim>\<open>false\<close> when there is none; it never raises. \<^verbatim>\<open>_getProduct\<close>, \<^verbatim>\<open>_getProductDraft\<close>,
  \<^verbatim>\<open>_getMainCategory\<close>, \<^verbatim>\<open>_getSubCategory\<close> and the four unit conversions are this lookup,
  the conversions reading a property of its result at once. No caller tests the result:
  a property of \<^verbatim>\<open>false\<close> reads as \<^verbatim>\<open>undefined\<close>, the activation of a draft id that no draft
  has runs into the assignment on \<^verbatim>\<open>false\<close> and ends with a \<^verbatim>\<open>TypeError\<close>, and
  \<^verbatim>\<open>_createDraft\<close> appends a draft whether or not the product exists.
\<close>

theorem lookup_first_or_false:
  "(\<forall>pre r post.
      getEntitySetData st n = pre @ r # post
      \<and> (\<forall>x\<in>set pre. \<not> strict_eq (fld x (key_name k)) sId)
      \<and> strict_eq (fld r (key_name k)) sId
      \<longrightarrow> getFirstFoundEntity st n sId k = JObj r)
   \<and> ((\<forall>x\<in>set (getEntitySetData st n). \<not> strict_eq (fld x (key_name k)) sId)
        \<longrightarrow> getFirstFoundEntity st n sId k = JBool False)
   \<and> getProduct st sId = getFirstFoundEntity st ''Products'' sId None
   \<and> getProductDraft st sId = getFirstFoundEntity st ''ProductDrafts'' sId None
   \<and> getMainCategory st sId = getFirstFoundEntity st ''MainCategories'' sId None
   \<and> getSubCategory st sId = getFirstFoundEntity st ''SubCategories'' sId None
   \<and> getWeightText st sId
        = jsprop (getFirstFoundEntity st ''WeightUnits'' sId (Some ''Unit'')) ''Shorttext''
   \<and> getWeightUnit st sId
        = jsprop (getFirstFoundEntity st ''WeightUnits'' sId (Some ''Shorttext'')) ''Unit''
   \<and> getDimensionText st sId
        = jsprop (getFirstFoundEntity st ''DimensionUnits'' sId (Some ''Unit'')) ''Shorttext''
   \<and> getDimensionUnit st sId
        = jsprop (getFirstFoundEntity st ''DimensionUnits'' sId (Some ''Shorttext'')) ''Unit''
   \<and> jsprop (JBool False) f = JUndefined
   \<and> ((\<forall>x\<in>set (getEntitySetData st ''ProductDrafts''). fld x ''Id'' \<noteq> JStr s)
        \<longrightarrow> fst (mockActivateProduct st s) = Inl TypeError)
   \<and> length (getEntitySetData (snd (createDraft st s b)) ''ProductDrafts'')
        = Suc (length (getEntitySetData st ''ProductDrafts''))"
proof -
  have found: "\<forall>pre r post.
      getEntitySetData st n = pre @ r # post
      \<and> (\<forall>x\<in>set pre. \<not> strict_eq (fld x (key_name k)) sId)
      \<and> strict_eq (fld r (key_name k)) sId
      \<longrightarrow> getFirstFoundEntity st n sId k = JObj r"
    using getFirstFoundEntity_found by blast
  have none: "(\<forall>x\<in>set (getEntitySetData st n). \<not> strict_eq (fld x (key_name k)) sId)
        \<longrightarrow> getFirstFoundEntity st n sId k = JBool False"
    using getFirstFoundEntity_none by blast
  have wrappers:
    "getProduct st sId = getFirstFoundEntity st ''Products'' sId None"
    "getProductDraft st sId = getFirstFoundEntity st ''ProductDrafts'' sId None"
    "getMainCategory st sId = getFirstFoundEntity st ''MainCategories'' sId None"
    "getSubCategory st sId = getFirstFoundEntity st ''SubCategories'' sId None"
    by (simp_all add: getProduct_def getProductDraft_def getMainCategory_def getSubCategory_def)
  have units:
    "getWeightText st sId
       = jsprop (getFirstFoundEntity st ''WeightUnits'' sId (Some ''Unit'')) ''Shorttext''"
    "getWeightUnit st sId
       = jsprop (getFirstFoundEntity st ''WeightUnits'' sId (Some ''Shorttext'')) ''Unit''"
    "getDimensionText st sId
       = jsprop (getFirstFoundEntity st ''DimensionUnits'' sId (Some ''Unit'')) ''Shorttext''"
    "getDimensionUnit st sId
       = jsprop (getFirstFoundEntity st ''DimensionUnits'' sId (Some ''Shorttext'')) ''Unit''"
    by (simp_all add: getWeightText_def getWeightUnit_def getDimensionText_def
        getDimensionUnit_def)
  have unguarded: "jsprop (JBool False) f = JUndefined"
    by simp
  have act: "(\<forall>x\<in>set (getEntitySetData st ''ProductDrafts''). fld x ''Id'' \<noteq> JStr s)
        \<longrightarrow> fst (mockActivateProduct st s) = Inl TypeError"
    using mockActivateProduct_missing by blast
  show ?thesis
    using found none wrappers units unguarded act createDraft_length by blast
qed

text \<open>The lookup on the scenario store: a hit, a miss, and the activation of a missing draft.\<close>

theorem lookup_first_or_false_witness:
  "getFirstFoundEntity store_scenario ''SubCategories'' (JStr ''S1'') None = JObj row_S1
   \<and> getFirstFoundEntity store_scenario ''SubCategories'' (JStr ''S2'') None = JBool False
   \<and> fst (mockActivateProduct store_scenario ''EPM-2'') = Inl TypeError"
proof -
  have a: "getEntitySetData store_scenario ''SubCategories'' = [] @ row_S1 # []"
    by (simp add: store_scenario_rows)
  have b: "\<forall>x\<in>set []. \<not> strict_eq (fld x (key_name None)) (JStr ''S1'')"
    by simp
  have c: "strict_eq (fld row_S1 (key_name None)) (JStr ''S1'')"
    by (simp add: key_name_def row_S1_def fld_def strict_eq_def)
  have d: "\<forall>x\<in>set (getEntitySetData store_scenario ''SubCategories'').
             \<not> strict_eq (fld x (key_name None)) (JStr ''S2'')"
    by (simp add: store_scenario_rows key_name_def row_S1_def fld_def strict_eq_def)
  have e: "\<forall>x\<in>set (getEntitySetData store_scenario ''ProductDrafts''). fld x ''Id'' \<noteq> JStr ''EPM-2''"
    by (simp add: store_scenario_rows draft_EPM1_def fld_def)
  from lookup_first_or_false [of store_scenario "''SubCategories''" None "JStr ''S1''" _ "''EPM-2''"]
  have 1: "getFirstFoundEntity store_scenario ''SubCategories'' (JStr ''S1'') None = JObj row_S1"
    and 3: "fst (mockActivateProduct store_scenario ''EPM-2'') = Inl TypeError"
    using a b c e by blast+
  from lookup_first_or_false [of store_scenario "''SubCategories''" None "JStr ''S2''"]
  have 2: "getFirstFoundEntity store_scenario ''SubCategories'' (JStr ''S2'') None = JBool False"
    using d by blast
  show ?thesis using 1 2 3 by simp
qed

section \<open>C9: drafts that carry a product id are left alone\<close>

text \<open>
  Claim C9. A draft that the generic creation of \<^verbatim>\<open>ProductDrafts\<close> made with a product id
  (\<^verbatim>\<open>ProductId\<close> a string that is not empty: the drafts of "Edit" and "Copy") is not changed
  by the defaulting step. The hook returns the entity as it was, and the add request leaves
  the whole store as it was: no default is merged and no other property is touched.
\<close>

theorem draft_with_ProductId_unchanged:
  assumes "fld e ''ProductId'' = JStr s" and "s \<noteq> []"
  shows "onAfterDraftCreated e = e \<and> mockAddProduct st (JObj e) = (Inr (), st)"
proof -
  have "truthy (fld e ''ProductId'')"
    using assms by simp
  then show ?thesis
    by (simp add: onAfterDraftCreated_def mockAddProduct_def)
qed

text \<open>The scenario draft has the product id \<^verbatim>\<open>EPM-1\<close>.\<close>

theorem draft_with_ProductId_unchanged_witness:
  "onAfterDraftCreated draft_EPM1 = draft_EPM1
   \<and> mockAddProduct store_scenario (JObj draft_EPM1) = (Inr (), store_scenario)"
proof -
  have h: "fld draft_EPM1 ''ProductId'' = JStr ''EPM-1''"
    by (simp add: draft_EPM1_def fld_def)
  have n: "''EPM-1'' \<noteq> []"
    by simp
  show ?thesis
    using draft_with_ProductId_unchanged [OF h n] by simp
qed

section \<open>C10: the product id of a copy draft\<close>

text \<open>
  Claim C10 says that the \<^verbatim>\<open>ProductId\<close> of a copy draft is the draft's own new \<^verbatim>\<open>Id\<close> and not
  the id of the product copied, and that the id of that product is recorded nowhere on the
  draft. The first part is what the code assigns, but the new id is \<^verbatim>\<open>"EPM-"\<close> and the counter
  whatever the ids in the store are, and all properties of the product but a few are copied
  as they are. With the counter at \<open>0\<close>, the copy of the product \<^verbatim>\<open>EPM-1\<close> is a draft whose
  \<^verbatim>\<open>ProductId\<close> and \<^verbatim>\<open>Id\<close> are \<^verbatim>\<open>EPM-1\<close>, the id of the product copied; and the copy of the
  product \<^verbatim>\<open>P1\<close> with the image \<^verbatim>\<open>/images/P1.jpg\<close> is a draft with that image URL, which
  holds the id.
\<close>

theorem copy_records_source_id_counterexample:
  "map (\<lambda>r. fld r ''Id'') (getEntitySetData store_counter_reset ''Products'') = [JStr ''EPM-1'']
   \<and> map (\<lambda>r. (fld r ''ProductId'', fld r ''Id''))
        (getEntitySetData (snd (mockCopyProduct store_counter_reset ''EPM-1'')) ''ProductDrafts'')
       = [(JStr ''EPM-1'', JStr ''EPM-1'')]
   \<and> map (\<lambda>r. (fld r ''Id'', fld r ''ImageUrl'')) (getEntitySetData store_pictured ''Products'')
       = [(JStr ''P1'', JStr ''/images/P1.jpg'')]
   \<and> map (\<lambda>r. fld r ''ImageUrl'')
        (getEntitySetData (snd (mockCopyProduct store_pictured ''P1'')) ''ProductDrafts'')
       = [JStr ''/images/P1.jpg'']"
proof -
  have rows: "getEntitySetData store_counter_reset ''Products'' = [product_EPM1]"
    "getEntitySetData store_counter_reset ''ProductDrafts'' = []"
    "getEntitySetData store_pictured ''Products'' = [product_pictured]"
    "getEntitySetData store_pictured ''ProductDrafts'' = []"
    and cnt: "iLastId store_counter_reset = 0"
    by (simp_all add: store_counter_reset_def store_pictured_def getEntitySetData_def)
  have ids: "fld product_EPM1 ''Id'' = JStr ''EPM-1''" "fld product_pictured ''Id'' = JStr ''P1''"
    "fld product_pictured ''ImageUrl'' = JStr ''/images/P1.jpg''"
    and img: "product_pictured ''ImageUrl'' = Some (JStr ''/images/P1.jpg'')"
    by (simp_all add: product_EPM1_def product_pictured_def fld_def)
  have a: "fld (created_draft store_counter_reset ''EPM-1'' True) ''ProductId'' = JStr ''EPM-1''"
    "fld (created_draft store_counter_reset ''EPM-1'' True) ''Id'' = JStr ''EPM-1''"
    by (rule fld_Some, simp add: created_draft_Id cnt string_of_nat_1)+
  have src: "getProduct store_pictured (JStr ''P1'') = JObj product_pictured"
    by (rule getProduct_first [OF rows(3) ids(2)])
  have "created_draft store_pictured ''P1'' True ''ImageUrl''
          = jQuery_extend Map.empty (getProduct store_pictured (JStr ''P1'')) ''ImageUrl''"
    by (rule created_draft_other) simp
  then have b: "fld (created_draft store_pictured ''P1'' True) ''ImageUrl'' = JStr ''/images/P1.jpg''"
    by (simp add: src jQuery_extend_def img fld_def)
  show ?thesis
    by (simp add: mockCopyProduct_def createDraft_sets rows ids a b)
qed

text \<open>
  Claim C10 as amended. In the copy flow the \<^verbatim>\<open>ProductId\<close> of the new draft is the draft's own
  new \<^verbatim>\<open>Id\<close>, \<^verbatim>\<open>"EPM-"\<close> and the incremented counter, whatever the id of the product copied is;
  so \<^verbatim>\<open>ProductId = Id\<close> holds for every copy draft. The \<^verbatim>\<open>Id\<close> and the addressing metadata of
  the product are not copied: when two requests copy products that have the same properties
  except for these two, from stores with the same counter, root and unit tables, the two
  drafts are the same object, property by property. Every property of the product that the
  draft creation neither deletes nor overwrites is copied as it is (one that holds
  \<^verbatim>\<open>undefined\<close> is left out), so the draft holds the id of the product where such a property
  holds it, or where the new id happens to be that id.
\<close>

theorem copy_draft_ProductId_is_own_Id:
  "fld (created_draft st s True) ''ProductId'' = fld (created_draft st s True) ''Id''
   \<and> fld (created_draft st s True) ''Id'' = JStr (''EPM-'' @ string_of_nat (iLastId st + 1))
   \<and> getEntitySetData (snd (mockCopyProduct st s)) ''ProductDrafts''
       = getEntitySetData st ''ProductDrafts'' @ [created_draft st s True]
   \<and> (getProduct st (JStr s) = JObj P \<and> getProduct st' (JStr s') = JObj P'
       \<and> (\<forall>k. k \<noteq> ''Id'' \<and> k \<noteq> ''__metadata'' \<longrightarrow> P' k = P k)
       \<and> iLastId st' = iLastId st \<and> getRootUri st' = getRootUri st
       \<and> getEntitySetData st' ''WeightUnits'' = getEntitySetData st ''WeightUnits''
       \<and> getEntitySetData st' ''DimensionUnits'' = getEntitySetData st ''DimensionUnits''
       \<longrightarrow> created_draft st' s' True = created_draft st s True)
   \<and> (getProduct st (JStr s) = JObj P
       \<and> k \<notin> {''HasReviewOfCurrentUser'', ''RatingCount'', ''IsFavoriteOfCurrentUser'',
                ''StockQuantity'', ''AverageRating'', ''__metadata'', ''CreatedBy'',
                ''IsNewProduct'', ''IsDirty'', ''Id'', ''ProductId'', ''WeightUnit'',
                ''DimensionUnit'', ''Images''}
       \<longrightarrow> created_draft st s True k = jQuery_extend Map.empty (JObj P) k)"
proof -
  have copied: "getProduct st (JStr s) = JObj P
       \<and> k \<notin> {''HasReviewOfCurrentUser'', ''RatingCount'', ''IsFavoriteOfCurrentUser'',
                ''StockQuantity'', ''AverageRating'', ''__metadata'', ''CreatedBy'',
                ''IsNewProduct'', ''IsDirty'', ''Id'', ''ProductId'', ''WeightUnit'',
                ''DimensionUnit'', ''Images''}
       \<longrightarrow> created_draft st s True k = jQuery_extend Map.empty (JObj P) k"
  proof (intro impI, elim conjE)
    assume src: "getProduct st (JStr s) = JObj P"
      and k: "k \<notin> {''HasReviewOfCurrentUser'', ''RatingCount'', ''IsFavoriteOfCurrentUser'',
                ''StockQuantity'', ''AverageRating'', ''__metadata'', ''CreatedBy'',
                ''IsNewProduct'', ''IsDirty'', ''Id'', ''ProductId'', ''WeightUnit'',
                ''DimensionUnit'', ''Images''}"
    show "created_draft st s True k = jQuery_extend Map.empty (JObj P) k"
      using created_draft_other [OF k, of st s True] by (simp only: src)
  qed
  have own: "fld (created_draft st s True) ''ProductId'' = fld (created_draft st s True) ''Id''"
    by (simp add: fld_def created_draft_Id)
  have new: "fld (created_draft st s True) ''Id'' = JStr (''EPM-'' @ string_of_nat (iLastId st + 1))"
    by (rule fld_Some) (simp add: created_draft_Id)
  have rows: "getEntitySetData (snd (mockCopyProduct st s)) ''ProductDrafts''
       = getEntitySetData st ''ProductDrafts'' @ [created_draft st s True]"
    by (simp add: mockCopyProduct_def createDraft_sets)
  have same: "created_draft st' s' True = created_draft st s True"
    if src: "getProduct st (JStr s) = JObj P" "getProduct st' (JStr s') = JObj P'"
      and agree: "\<forall>k. k \<noteq> ''Id'' \<and> k \<noteq> ''__metadata'' \<longrightarrow> P' k = P k"
      and cnt: "iLastId st' = iLastId st" and root: "getRootUri st' = getRootUri st"
      and wu: "getEntitySetData st' ''WeightUnits'' = getEntitySetData st ''WeightUnits''"
      and du: "getEntitySetData st' ''DimensionUnits'' = getEntitySetData st ''DimensionUnits''"
  proof -
    have w: "getWeightUnit st' (jsprop (JObj P') ''WeightUnit'')
               = getWeightUnit st (jsprop (JObj P) ''WeightUnit'')"
      using agree getFirstFoundEntity_same_rows [OF wu]
      by (simp add: getWeightUnit_def fld_def)
    have d: "getDimensionUnit st' (jsprop (JObj P') ''DimensionUnit'')
               = getDimensionUnit st (jsprop (JObj P) ''DimensionUnit'')"
      using agree getFirstFoundEntity_same_rows [OF du]
      by (simp add: getDimensionUnit_def fld_def)
    have e: "jQuery_extend Map.empty (JObj P') k = jQuery_extend Map.empty (JObj P) k"
      if "k \<noteq> ''Id''" "k \<noteq> ''__metadata''" for k
      using agree that by (simp add: jQuery_extend_def)
    show ?thesis
    proof (rule ext)
      fix k
      show "created_draft st' s' True k = created_draft st s True k"
      proof (cases "k = ''Id'' \<or> k = ''__metadata''")
        case True
        then show ?thesis
          unfolding created_draft_eq src w d cnt root by auto
      next
        case False
        then show ?thesis
          unfolding created_draft_eq src w d cnt root using e [of k] by simp
      qed
    qed
  qed
  have same': "getProduct st (JStr s) = JObj P \<and> getProduct st' (JStr s') = JObj P'
       \<and> (\<forall>k. k \<noteq> ''Id'' \<and> k \<noteq> ''__metadata'' \<longrightarrow> P' k = P k)
       \<and> iLastId st' = iLastId st \<and> getRootUri st' = getRootUri st
       \<and> getEntitySetData st' ''WeightUnits'' = getEntitySetData st ''WeightUnits''
       \<and> getEntitySetData st' ''DimensionUnits'' = getEntitySetData st ''DimensionUnits''
       \<longrightarrow> created_draft st' s' True = created_draft st s True"
    using same by blast
  show ?thesis
    by (intro conjI) (fact own new rows same' copied)+
qed

text \<open>
  The product \<^verbatim>\<open>P1\<close> and the same product under the id \<^verbatim>\<open>P2\<close>: both copies are the draft
  \<^verbatim>\<open>EPM-1\<close> with the product id \<^verbatim>\<open>EPM-1\<close>, and the copy has the name of the product.
\<close>

theorem copy_draft_ProductId_is_own_Id_witness:
  "fld (created_draft store_product ''P1'' True) ''ProductId'' = JStr ''EPM-1''
   \<and> fld (created_draft store_product ''P1'' True) ''Id'' = JStr ''EPM-1''
   \<and> created_draft store_product_renamed ''P2'' True = created_draft store_product ''P1'' True
   \<and> created_draft store_product ''P1'' True ''Name'' = Some (JStr ''Chips'')"
proof -
  have cnt: "iLastId store_product = 0" "iLastId store_product_renamed = 0"
    and root: "getRootUri store_product_renamed = getRootUri store_product"
    by (simp_all add: store_product_def store_product_renamed_def getRootUri_def)
  have rows: "getEntitySetData store_product_renamed ''Products'' = [product_P2]"
    "getEntitySetData store_product_renamed ''WeightUnits'' = getEntitySetData store_product ''WeightUnits''"
    "getEntitySetData store_product_renamed ''DimensionUnits''
       = getEntitySetData store_product ''DimensionUnits''"
    by (simp_all add: store_product_renamed_def store_product_def getEntitySetData_def)
  have ids: "fld product_P1 ''Id'' = JStr ''P1''" "fld product_P2 ''Id'' = JStr ''P2''"
    by (simp_all add: product_P1_def product_P2_def fld_def)
  have src: "getProduct store_product (JStr ''P1'') = JObj product_P1"
    "getProduct store_product_renamed (JStr ''P2'') = JObj product_P2"
    by (rule getProduct_first [OF store_product_rows(1) ids(1)],
        rule getProduct_first [OF rows(1) ids(2)])
  have agree: "\<forall>k. k \<noteq> ''Id'' \<and> k \<noteq> ''__metadata'' \<longrightarrow> product_P2 k = product_P1 k"
    by (simp add: product_P2_def)
  have name: "jQuery_extend Map.empty (JObj product_P1) ''Name'' = Some (JStr ''Chips'')"
    by (simp add: jQuery_extend_def product_P1_def)
  have key: "''Name'' \<notin> {''HasReviewOfCurrentUser'', ''RatingCount'', ''IsFavoriteOfCurrentUser'',
                ''StockQuantity'', ''AverageRating'', ''__metadata'', ''CreatedBy'',
                ''IsNewProduct'', ''IsDirty'', ''Id'', ''ProductId'', ''WeightUnit'',
                ''DimensionUnit'', ''Images''}"
    by simp
  have cnt_eq: "iLastId store_product_renamed = iLastId store_product"
    by (simp add: cnt)
  note inst = copy_draft_ProductId_is_own_Id
            [of store_product "''P1''" product_P1 store_product_renamed "''P2''" product_P2
                "''Name''"]
  have 1: "fld (created_draft store_product ''P1'' True) ''ProductId'' = JStr ''EPM-1''"
    using inst [THEN conjunct1] inst [THEN conjunct2, THEN conjunct1]
    by (simp add: cnt string_of_nat_1)
  have 2: "fld (created_draft store_product ''P1'' True) ''Id'' = JStr ''EPM-1''"
    using inst [THEN conjunct2, THEN conjunct1] by (simp add: cnt string_of_nat_1)
  have 3: "created_draft store_product_renamed ''P2'' True = created_draft store_product ''P1'' True"
    by (rule mp [OF inst [THEN conjunct2, THEN conjunct2, THEN conjunct2, THEN conjunct1]])
       (intro conjI src agree cnt_eq root rows(2,3))
  have "created_draft store_product ''P1'' True ''Name''
          = jQuery_extend Map.empty (JObj product_P1) ''Name''"
    by (rule mp [OF inst [THEN conjunct2, THEN conjunct2, THEN conjunct2, THEN conjunct2]])
       (intro conjI src(1) key)
  then have 4: "created_draft store_product ''P1'' True ''Name'' = Some (JStr ''Chips'')"
    by (simp only: name)
  show ?thesis
    by (intro conjI) (fact 1 2 3 4)+
qed

end
